theory Spec2Isabelle
  imports Main "HOL-Library.AList"
begin

section \<open>The authorship ledger of Public-Codex\<close>

text \<open>
  A shallow embedding of \<^verbatim>\<open>server/src/services/LedgerService.js\<close>,
  \<^verbatim>\<open>server/src/models/LedgerEntry.js\<close>, \<^verbatim>\<open>server/src/services/FileBasedLedger.js\<close>
  and of the ledger step of the poem-creation route.

  The JavaScript calls into Node's \<^verbatim>\<open>crypto\<close> module, \<^verbatim>\<open>JSON\<close> and \<^verbatim>\<open>Date\<close>. These
  are not code of the repository; the model takes them as a record of functions
  (\<open>runtime\<close>) and every general theorem holds for every such record. Instants are
  milliseconds (\<open>nat\<close>); what \<^verbatim>\<open>new Date()\<close> and \<^verbatim>\<open>crypto.randomUUID()\<close> return is an
  argument of the function that calls them.
\<close>

subsection \<open>JSON values and the runtime\<close>

datatype json =
    JNull
  | JBool bool
  | JNum int
  | JStr string
  | JArr "json list"
  | JObj "(string \<times> json) list"

text \<open>
  A user document as \<^verbatim>\<open>populate('author', 'username displayName avatar')\<close> loads it.
\<close>

record user_doc =
  u_id :: string
  username :: string
  displayName :: string
  avatar :: string

record runtime =
  sha256_hex :: "string \<Rightarrow> string"
  hmac_sha256_hex :: "string \<Rightarrow> string \<Rightarrow> string"
  toISOString :: "nat \<Rightarrow> string"
  json_stringify :: "json \<Rightarrow> string"
  json_parse :: "string \<Rightarrow> json option"
  document_toString :: "user_doc \<Rightarrow> string"

text \<open>
  \<open>hmac_sha256_hex rt key data\<close> is \<^verbatim>\<open>createHmac('sha256', key).update(data).digest('hex')\<close>;
  \<open>json_parse rt s = None\<close> stands for the \<^verbatim>\<open>SyntaxError\<close> of \<^verbatim>\<open>JSON.parse\<close>;
  \<open>document_toString rt d\<close> is the text Mongoose's \<^verbatim>\<open>Document.prototype.toString\<close> prints
  for a document (the inspection of its fields).
\<close>

datatype error =
    ERR_INVALID_ARG_TYPE
  | TypeError
  | NoPreviousEntry
  | InvalidAuthorship
  | IMMUTABLE_LEDGER
  | DuplicateKey
  | Unavailable

subsection \<open>The structured store: \<^verbatim>\<open>models/LedgerEntry.js\<close>\<close>

datatype event_type = POEM_CREATED | POEM_UPDATED | POEM_DELETED | POEM_TRANSFERRED

record entry_metadata =
  md_title :: string
  originalTimestamp :: nat
  md_license :: string
  wordCount :: nat
  previousVersion :: "string option"

record witness_node =
  nodeId :: string
  wn_signature :: string
  wn_timestamp :: nat

record ledger_entry =
  eventType :: event_type
  poemId :: string
  authorId :: string
  contentHash :: string
  previousHash :: "string option"
  blockHash :: string
  metadata :: entry_metadata
  signature :: string
  witnessNodes :: "witness_node list"
  isVerified :: bool
  createdAt :: nat

text \<open>
  The collection is the list of its documents in insertion order, with the state of the
  connection: a query or an insert on a connection that is down rejects. Identifiers
  (\<^verbatim>\<open>ObjectId\<close>) are strings; \<open>previousHash = None\<close> is the schema's default \<^verbatim>\<open>null\<close>.
\<close>

record ledger_db =
  docs :: "ledger_entry list"
  db_up :: bool

text \<open>
  \<^verbatim>\<open>find(filter).sort({ createdAt: 1 })\<close>. The sort is the stable insertion sort of the
  library: documents with the same \<open>createdAt\<close> keep their insertion order (MongoDB
  leaves their order open).
\<close>

definition find_sorted :: "ledger_db \<Rightarrow> (ledger_entry \<Rightarrow> bool) \<Rightarrow> error + ledger_entry list" where
  "find_sorted db flt =
     (if db_up db then Inr (sort_key createdAt (filter flt (docs db))) else Inl Unavailable)"

text \<open>\<^verbatim>\<open>findOne(filter).sort({ createdAt: -1 })\<close>: the last document of the ascending order.\<close>

definition findOne_latest :: "ledger_db \<Rightarrow> (ledger_entry \<Rightarrow> bool) \<Rightarrow> error + ledger_entry option" where
  "findOne_latest db flt =
     (case find_sorted db flt of
        Inl e \<Rightarrow> Inl e
      | Inr es \<Rightarrow> Inr (if es = [] then None else Some (last es)))"

text \<open>
  The operations of a Mongoose model that write, by the name of the middleware each of
  them runs, and the \<^verbatim>\<open>pre\<close> hooks the schema registers: one for \<^verbatim>\<open>save\<close>, which
  rejects a document that is not new, one for \<^verbatim>\<open>remove\<close> and one for \<^verbatim>\<open>deleteOne\<close>,
  which always reject. The schema registers no hook under any other name. The flag is
  \<^verbatim>\<open>this.isNew\<close>.
\<close>

datatype store_method =
    On_save
  | On_remove
  | On_deleteOne
  | On_updateOne
  | On_findOneAndUpdate
  | On_deleteMany
  | On_findOneAndDelete

fun pre_hook :: "store_method \<Rightarrow> bool \<Rightarrow> error option" where
  "pre_hook On_save isNew = (if \<not> isNew then Some IMMUTABLE_LEDGER else None)"
| "pre_hook On_remove isNew = Some IMMUTABLE_LEDGER"
| "pre_hook On_deleteOne isNew = Some IMMUTABLE_LEDGER"
| "pre_hook On_updateOne isNew = None"
| "pre_hook On_findOneAndUpdate isNew = None"
| "pre_hook On_deleteMany isNew = None"
| "pre_hook On_findOneAndDelete isNew = None"

text \<open>
  \<^verbatim>\<open>document.save()\<close>. The \<^verbatim>\<open>pre('save')\<close> hook of the schema runs first and rejects a
  document that is not new. A new document is inserted with \<open>createdAt\<close> set to the
  instant of the save (\<^verbatim>\<open>timestamps: { createdAt: true }\<close>); the insert rejects when the
  connection is down or when the unique index on \<open>blockHash\<close> already holds the value.
\<close>

definition save :: "ledger_db \<Rightarrow> bool \<Rightarrow> ledger_entry \<Rightarrow> nat \<Rightarrow> (error + ledger_entry) \<times> ledger_db" where
  "save db isNew doc now =
     (case pre_hook On_save isNew of
        Some e \<Rightarrow> (Inl e, db)
      | None \<Rightarrow>
          if \<not> db_up db then (Inl Unavailable, db)
          else if blockHash doc \<in> blockHash ` set (docs db) then (Inl DuplicateKey, db)
          else (let stored = doc\<lparr>createdAt := now\<rparr>
                in (Inr stored, db\<lparr>docs := docs db @ [stored]\<rparr>)))"

text \<open>
  A query filter is the predicate it is on a document; the first match is the first in
  insertion order.
\<close>

fun update_first :: "('a \<Rightarrow> bool) \<Rightarrow> ('a \<Rightarrow> 'a) \<Rightarrow> 'a list \<Rightarrow> 'a list" where
  "update_first flt f [] = []"
| "update_first flt f (x # xs) = (if flt x then f x # xs else x # update_first flt f xs)"

fun delete_first :: "('a \<Rightarrow> bool) \<Rightarrow> 'a list \<Rightarrow> 'a list" where
  "delete_first flt [] = []"
| "delete_first flt (x # xs) = (if flt x then xs else x # delete_first flt xs)"

text \<open>
  \<^verbatim>\<open>LedgerEntry.deleteOne(filter)\<close> runs the \<^verbatim>\<open>deleteOne\<close> hook, which rejects.
\<close>

definition deleteOne :: "ledger_db \<Rightarrow> (ledger_entry \<Rightarrow> bool) \<Rightarrow> (error + nat) \<times> ledger_db" where
  "deleteOne db flt =
     (case pre_hook On_deleteOne False of
        Some e \<Rightarrow> (Inl e, db)
      | None \<Rightarrow>
          if \<not> db_up db then (Inl Unavailable, db)
          else (Inr (min 1 (length (filter flt (docs db)))),
                db\<lparr>docs := delete_first flt (docs db)\<rparr>))"

text \<open>
  \<^verbatim>\<open>LedgerEntry.updateOne(filter, update)\<close> and \<^verbatim>\<open>LedgerEntry.findOneAndUpdate(filter, update)\<close>
  (\<^verbatim>\<open>findByIdAndUpdate\<close> is the latter with a filter on \<^verbatim>\<open>_id\<close>; the poem routes call it
  on the other models). \<open>upd\<close> is the update as the function it is on a document;
  \<open>createdAt\<close> is kept, since the \<^verbatim>\<open>timestamps\<close> option makes it immutable. The update
  rejects when it would break the unique index on \<open>blockHash\<close>. The first answers with
  the number of documents matched, the second with the document as it was.
\<close>

definition updated_docs :: "ledger_db \<Rightarrow> (ledger_entry \<Rightarrow> bool) \<Rightarrow> (ledger_entry \<Rightarrow> ledger_entry) \<Rightarrow> ledger_entry list" where
  "updated_docs db flt upd = update_first flt (\<lambda>x. (upd x)\<lparr>createdAt := createdAt x\<rparr>) (docs db)"

definition breaks_index :: "ledger_entry list \<Rightarrow> ledger_entry list \<Rightarrow> bool" where
  "breaks_index before after \<longleftrightarrow>
     distinct (map blockHash before) \<and> \<not> distinct (map blockHash after)"

definition updateOne ::
  "ledger_db \<Rightarrow> (ledger_entry \<Rightarrow> bool) \<Rightarrow> (ledger_entry \<Rightarrow> ledger_entry) \<Rightarrow> (error + nat) \<times> ledger_db" where
  "updateOne db flt upd =
     (case pre_hook On_updateOne False of
        Some e \<Rightarrow> (Inl e, db)
      | None \<Rightarrow>
          if \<not> db_up db then (Inl Unavailable, db)
          else if breaks_index (docs db) (updated_docs db flt upd) then (Inl DuplicateKey, db)
          else (Inr (min 1 (length (filter flt (docs db)))),
                db\<lparr>docs := updated_docs db flt upd\<rparr>))"

definition findOneAndUpdate ::
  "ledger_db \<Rightarrow> (ledger_entry \<Rightarrow> bool) \<Rightarrow> (ledger_entry \<Rightarrow> ledger_entry) \<Rightarrow>
   (error + ledger_entry option) \<times> ledger_db" where
  "findOneAndUpdate db flt upd =
     (case pre_hook On_findOneAndUpdate False of
        Some e \<Rightarrow> (Inl e, db)
      | None \<Rightarrow>
          if \<not> db_up db then (Inl Unavailable, db)
          else if breaks_index (docs db) (updated_docs db flt upd) then (Inl DuplicateKey, db)
          else (Inr (find flt (docs db)), db\<lparr>docs := updated_docs db flt upd\<rparr>))"

text \<open>
  \<^verbatim>\<open>LedgerEntry.deleteMany(filter)\<close> and \<^verbatim>\<open>LedgerEntry.findOneAndDelete(filter)\<close>
  (\<^verbatim>\<open>findByIdAndDelete\<close> is the latter with a filter on \<^verbatim>\<open>_id\<close>; the poem routes call it
  on the poem model). The first answers with the number of documents deleted, the second
  with the document deleted.
\<close>

definition deleteMany :: "ledger_db \<Rightarrow> (ledger_entry \<Rightarrow> bool) \<Rightarrow> (error + nat) \<times> ledger_db" where
  "deleteMany db flt =
     (case pre_hook On_deleteMany False of
        Some e \<Rightarrow> (Inl e, db)
      | None \<Rightarrow>
          if \<not> db_up db then (Inl Unavailable, db)
          else (Inr (length (filter flt (docs db))),
                db\<lparr>docs := filter (\<lambda>x. \<not> flt x) (docs db)\<rparr>))"

definition findOneAndDelete ::
  "ledger_db \<Rightarrow> (ledger_entry \<Rightarrow> bool) \<Rightarrow> (error + ledger_entry option) \<times> ledger_db" where
  "findOneAndDelete db flt =
     (case pre_hook On_findOneAndDelete False of
        Some e \<Rightarrow> (Inl e, db)
      | None \<Rightarrow>
          if \<not> db_up db then (Inl Unavailable, db)
          else (Inr (find flt (docs db)), db\<lparr>docs := delete_first flt (docs db)\<rparr>))"

text \<open>
  \<^verbatim>\<open>getAuthorshipChain\<close>: the entries of one poem, oldest first (\<^verbatim>\<open>populate\<close> changes
  neither the order nor the fields the ledger reads).
\<close>

definition getAuthorshipChain :: "ledger_db \<Rightarrow> string \<Rightarrow> error + ledger_entry list" where
  "getAuthorshipChain db pid = find_sorted db (\<lambda>e. poemId e = pid)"

text \<open>
  The loop of \<^verbatim>\<open>verifyChainIntegrity\<close>:
  \<^verbatim>\<open>for (let i = 1; i < entries.length; i++)
    if (entries[i].previousHash !== entries[i - 1].blockHash) return false;
  return true;\<close>
\<close>

function chain_loop :: "ledger_entry list \<Rightarrow> nat \<Rightarrow> bool" where
  "chain_loop entries i =
     (if i < length entries then
        (if previousHash (entries ! i) \<noteq> Some (blockHash (entries ! (i - 1))) then False
         else chain_loop entries (i + 1))
      else True)"
  by pat_completeness auto
termination
  by (relation "measure (\<lambda>(entries, i). length entries - i)") auto

declare chain_loop.simps [simp del]

definition verifyChainIntegrity :: "ledger_db \<Rightarrow> string \<Rightarrow> error + bool" where
  "verifyChainIntegrity db pid =
     (case find_sorted db (\<lambda>e. poemId e = pid) of
        Inl e \<Rightarrow> Inl e
      | Inr entries \<Rightarrow> Inr (chain_loop entries 1))"

text \<open>Two entries that agree on every field the chain check and its query read.\<close>

definition same_links :: "ledger_entry \<Rightarrow> ledger_entry \<Rightarrow> bool" where
  "same_links e e' \<longleftrightarrow>
     poemId e' = poemId e \<and> createdAt e' = createdAt e \<and>
     previousHash e' = previousHash e \<and> blockHash e' = blockHash e"

subsection \<open>\<^verbatim>\<open>services/LedgerService.js\<close>: hashing and appending\<close>

text \<open>
  \<^verbatim>\<open>generateContentHash(content)\<close>. \<open>None\<close> is a call without the argument
  (\<^verbatim>\<open>undefined\<close>): \<^verbatim>\<open>hash.update(undefined)\<close> throws \<^verbatim>\<open>ERR_INVALID_ARG_TYPE\<close>.
\<close>

definition generateContentHash :: "runtime \<Rightarrow> string option \<Rightarrow> error + string" where
  "generateContentHash rt content =
     (case content of
        None \<Rightarrow> Inl ERR_INVALID_ARG_TYPE
      | Some c \<Rightarrow> Inr (sha256_hex rt c))"

text \<open>\<^verbatim>\<open>previousHash || '0'\<close>: \<^verbatim>\<open>null\<close> and the empty string are both falsy.\<close>

definition or_zero :: "string option \<Rightarrow> string" where
  "or_zero previous = (case previous of None \<Rightarrow> ''0'' | Some p \<Rightarrow> (if p = [] then ''0'' else p))"

text \<open>
  \<^verbatim>\<open>generateBlockHash(contentHash, previousHash, timestamp, authorId)\<close>; the last three
  parameters are the texts the template literal makes of the arguments.
\<close>

definition generateBlockHash :: "runtime \<Rightarrow> string \<Rightarrow> string option \<Rightarrow> string \<Rightarrow> string \<Rightarrow> string" where
  "generateBlockHash rt cHash previous timestamp aId =
     sha256_hex rt (or_zero previous @ cHash @ timestamp @ aId)"

definition generateSignature :: "runtime \<Rightarrow> string \<Rightarrow> string option \<Rightarrow> string" where
  "generateSignature rt payload privateKey =
     hmac_sha256_hex rt (case privateKey of None \<Rightarrow> ''poets-codex-secret'' | Some k \<Rightarrow> k) payload"

text \<open>
  The \<open>author\<close> of the poem handed to the service is the identifier of the user (the
  creation route hands over the poem as saved) or the user document (the update route
  hands over the poem with \<^verbatim>\<open>populate('author', ...)\<close> applied). \<open>author_text\<close> is what the
  template literal \<^verbatim>\<open>`${author}`\<close> makes of it, \<open>author_oid\<close> what the \<^verbatim>\<open>ObjectId\<close> path
  \<open>authorId\<close> of the schema stores for it.
\<close>

datatype author_ref = Author_id string | Author_doc user_doc

definition author_text :: "runtime \<Rightarrow> author_ref \<Rightarrow> string" where
  "author_text rt a = (case a of Author_id i \<Rightarrow> i | Author_doc d \<Rightarrow> document_toString rt d)"

definition author_oid :: "author_ref \<Rightarrow> string" where
  "author_oid a = (case a of Author_id i \<Rightarrow> i | Author_doc d \<Rightarrow> u_id d)"

record poem_data =
  p_id :: string
  title :: string
  body :: string
  author :: author_ref
  license :: string

text \<open>\<^verbatim>\<open>`${title} ${body}`.split(' ').length\<close>: one more than the number of spaces.\<close>

definition word_count :: "string \<Rightarrow> string \<Rightarrow> nat" where
  "word_count t b = Suc (length (filter (\<lambda>c. c = CHR '' '') (t @ '' '' @ b)))"

definition primary_witness :: "runtime \<Rightarrow> string \<Rightarrow> nat \<Rightarrow> witness_node" where
  "primary_witness rt bHash timestamp =
     \<lparr>nodeId = ''primary-node'',
      wn_signature = generateSignature rt (''witness-'' @ bHash) None,
      wn_timestamp = timestamp\<rparr>"

text \<open>
  \<^verbatim>\<open>createPoemEntry(poemData)\<close>; \<open>timestamp\<close> is the \<^verbatim>\<open>new Date()\<close> of its second line,
  \<open>now\<close> the instant of the save. A thrown error is \<open>Inl\<close>; the store is returned in
  both cases.
\<close>

definition createPoemEntry ::
  "runtime \<Rightarrow> ledger_db \<Rightarrow> poem_data \<Rightarrow> nat \<Rightarrow> nat \<Rightarrow> (error + ledger_entry) \<times> ledger_db" where
  "createPoemEntry rt db poemData timestamp now =
     (case generateContentHash rt
             (Some (title poemData @ body poemData @ author_text rt (author poemData) @
                    toISOString rt timestamp)) of
        Inl e \<Rightarrow> (Inl e, db)
      | Inr cHash \<Rightarrow>
          (case findOne_latest db (\<lambda>e. True) of
             Inl e \<Rightarrow> (Inl e, db)
           | Inr previousEntry \<Rightarrow>
               (let previous = map_option blockHash previousEntry;
                    bHash = generateBlockHash rt cHash previous (toISOString rt timestamp)
                              (author_text rt (author poemData));
                    signatureData = cHash @ bHash @ toISOString rt timestamp;
                    sig = generateSignature rt signatureData None;
                    ledgerEntry =
                      \<lparr>eventType = POEM_CREATED,
                       poemId = p_id poemData,
                       authorId = author_oid (author poemData),
                       contentHash = cHash,
                       previousHash = previous,
                       blockHash = bHash,
                       metadata =
                         \<lparr>md_title = title poemData,
                          originalTimestamp = timestamp,
                          md_license = license poemData,
                          wordCount = word_count (title poemData) (body poemData),
                          previousVersion = None\<rparr>,
                       signature = sig,
                       witnessNodes = [primary_witness rt bHash timestamp],
                       isVerified = True,
                       createdAt = now\<rparr>
                in save db True ledgerEntry now)))"

text \<open>
  \<^verbatim>\<open>updatePoemEntry(poemData, previousVersion)\<close>; the second parameter is never read.
\<close>

definition updatePoemEntry ::
  "runtime \<Rightarrow> ledger_db \<Rightarrow> poem_data \<Rightarrow> nat \<Rightarrow> nat \<Rightarrow> (error + ledger_entry) \<times> ledger_db" where
  "updatePoemEntry rt db poemData timestamp now =
     (case generateContentHash rt
             (Some (title poemData @ body poemData @ author_text rt (author poemData) @
                    toISOString rt timestamp)) of
        Inl e \<Rightarrow> (Inl e, db)
      | Inr cHash \<Rightarrow>
          (case findOne_latest db (\<lambda>e. poemId e = p_id poemData) of
             Inl e \<Rightarrow> (Inl e, db)
           | Inr None \<Rightarrow> (Inl NoPreviousEntry, db)
           | Inr (Some previousEntry) \<Rightarrow>
               (let bHash = generateBlockHash rt cHash (Some (blockHash previousEntry))
                              (toISOString rt timestamp) (author_text rt (author poemData));
                    signatureData = cHash @ bHash @ toISOString rt timestamp;
                    sig = generateSignature rt signatureData None;
                    ledgerEntry =
                      \<lparr>eventType = POEM_UPDATED,
                       poemId = p_id poemData,
                       authorId = author_oid (author poemData),
                       contentHash = cHash,
                       previousHash = Some (blockHash previousEntry),
                       blockHash = bHash,
                       metadata =
                         \<lparr>md_title = title poemData,
                          originalTimestamp = timestamp,
                          md_license = license poemData,
                          wordCount = word_count (title poemData) (body poemData),
                          previousVersion = Some (contentHash previousEntry)\<rparr>,
                       signature = sig,
                       witnessNodes = [primary_witness rt bHash timestamp],
                       isVerified = True,
                       createdAt = now\<rparr>
                in save db True ledgerEntry now)))"

subsection \<open>\<^verbatim>\<open>services/LedgerService.js\<close>: verification\<close>

record entry_summary =
  es_eventType :: event_type
  es_timestamp :: nat
  es_author :: string
  es_contentHash :: string

text \<open>The object \<^verbatim>\<open>verifyAuthorship\<close> returns; a property it does not set is \<open>None\<close>.\<close>

record verification =
  isValid :: bool
  reason :: "string option"
  originalAuthor :: "string option"
  creationDate :: "nat option"
  lastModified :: "nat option"
  totalModifications :: "nat option"
  entries :: "entry_summary list option"

definition rejected :: "string \<Rightarrow> verification" where
  "rejected why =
     \<lparr>isValid = False, reason = Some why, originalAuthor = None, creationDate = None,
      lastModified = None, totalModifications = None, entries = None\<rparr>"

definition summary :: "ledger_entry \<Rightarrow> entry_summary" where
  "summary e =
     \<lparr>es_eventType = eventType e, es_timestamp = createdAt e, es_author = authorId e,
      es_contentHash = contentHash e\<rparr>"

text \<open>
  \<^verbatim>\<open>verifyAuthorship(poemId, currentContent)\<close>. The content is hashed first, then the
  chain is read, then \<^verbatim>\<open>verifyChainIntegrity\<close> reads it again; both reads see the same
  store.
\<close>

definition verifyAuthorship :: "runtime \<Rightarrow> ledger_db \<Rightarrow> string \<Rightarrow> string option \<Rightarrow> error + verification" where
  "verifyAuthorship rt db pid currentContent =
     (case generateContentHash rt currentContent of
        Inl e \<Rightarrow> Inl e
      | Inr currentHash \<Rightarrow>
          (case getAuthorshipChain db pid of
             Inl e \<Rightarrow> Inl e
           | Inr es \<Rightarrow>
               if length es = 0 then Inr (rejected ''No ledger entries found'')
               else
                 (case verifyChainIntegrity db pid of
                    Inl e \<Rightarrow> Inl e
                  | Inr chainValid \<Rightarrow>
                      if \<not> chainValid then Inr (rejected ''Ledger chain integrity compromised'')
                      else
                        (let latestEntry = es ! (length es - 1);
                             contentMatches = (contentHash latestEntry = currentHash)
                         in Inr \<lparr>isValid = (contentMatches \<and> chainValid),
                                 reason = None,
                                 originalAuthor = Some (authorId (es ! 0)),
                                 creationDate = Some (createdAt (es ! 0)),
                                 lastModified = Some (createdAt latestEntry),
                                 totalModifications = Some (length es - 1),
                                 entries = Some (map summary es)\<rparr>))))"

subsection \<open>\<^verbatim>\<open>services/LedgerService.js\<close>: certificates\<close>

record certificate =
  cert_poemId :: string
  certificateId :: string
  issuedAt :: string
  cert_originalAuthor :: "string option"
  cert_creationDate :: "nat option"
  lastVerified :: string
  chainLength :: nat
  certificateHash :: "string option"
  digitalSignature :: "string option"

text \<open>
  The object handed to \<^verbatim>\<open>JSON.stringify\<close>: the properties in the order of the object
  literal; a property that is \<^verbatim>\<open>undefined\<close> (\<open>None\<close>) is left out, a \<^verbatim>\<open>Date\<close> is written as
  its ISO string, the author as the identifier.
\<close>

definition opt_prop :: "string \<Rightarrow> json option \<Rightarrow> (string \<times> json) list" where
  "opt_prop k v = (case v of None \<Rightarrow> [] | Some j \<Rightarrow> [(k, j)])"

definition certificate_json :: "runtime \<Rightarrow> certificate \<Rightarrow> json" where
  "certificate_json rt c =
     JObj ([(''poemId'', JStr (cert_poemId c)),
            (''certificateId'', JStr (certificateId c)),
            (''issuedAt'', JStr (issuedAt c))]
           @ opt_prop ''originalAuthor'' (map_option JStr (cert_originalAuthor c))
           @ opt_prop ''creationDate'' (map_option (\<lambda>d. JStr (toISOString rt d)) (cert_creationDate c))
           @ [(''lastVerified'', JStr (lastVerified c)),
              (''chainLength'', JNum (int (chainLength c)))]
           @ opt_prop ''certificateHash'' (map_option JStr (certificateHash c))
           @ opt_prop ''digitalSignature'' (map_option JStr (digitalSignature c)))"

text \<open>
  \<^verbatim>\<open>JSON.stringify({ ...certificate, certificateHash: undefined, digitalSignature: undefined })\<close>
\<close>

definition certificateData :: "runtime \<Rightarrow> certificate \<Rightarrow> string" where
  "certificateData rt c =
     json_stringify rt (certificate_json rt (c\<lparr>certificateHash := None, digitalSignature := None\<rparr>))"

text \<open>The last lines of \<^verbatim>\<open>generateAuthorshipCertificate\<close>: hash and sign the certificate.\<close>

definition seal_certificate :: "runtime \<Rightarrow> certificate \<Rightarrow> error + certificate" where
  "seal_certificate rt c =
     (case generateContentHash rt (Some (certificateData rt c)) of
        Inl e \<Rightarrow> Inl e
      | Inr h \<Rightarrow>
          Inr (c\<lparr>certificateHash := Some h,
                 digitalSignature := Some (generateSignature rt (certificateData rt c) None)\<rparr>))"

text \<open>
  \<^verbatim>\<open>generateAuthorshipCertificate(poemId)\<close>. It calls \<^verbatim>\<open>this.verifyAuthorship(poemId)\<close>
  with one argument. \<open>uuid\<close>, \<open>issued\<close> and \<open>verified\<close> are what \<^verbatim>\<open>randomUUID()\<close> and the
  two \<^verbatim>\<open>new Date()\<close> return.
\<close>

definition generateAuthorshipCertificate ::
  "runtime \<Rightarrow> ledger_db \<Rightarrow> string \<Rightarrow> string \<Rightarrow> nat \<Rightarrow> nat \<Rightarrow> error + certificate" where
  "generateAuthorshipCertificate rt db pid uuid issued verified =
     (case verifyAuthorship rt db pid None of
        Inl e \<Rightarrow> Inl e
      | Inr v \<Rightarrow>
          if \<not> isValid v then Inl InvalidAuthorship
          else
            (case entries v of
               None \<Rightarrow> Inl TypeError
             | Some es \<Rightarrow>
                 seal_certificate rt
                   \<lparr>cert_poemId = pid,
                    certificateId = uuid,
                    issuedAt = toISOString rt issued,
                    cert_originalAuthor = originalAuthor v,
                    cert_creationDate = creationDate v,
                    lastVerified = toISOString rt verified,
                    chainLength = length es,
                    certificateHash = Some [],
                    digitalSignature = Some []\<rparr>))"

record validation_details =
  hashMatch :: bool
  signatureMatch :: bool
  poemExists :: bool
  chainIntact :: bool

record validation =
  val_isValid :: bool
  certificateIntegrity :: bool
  poemIntegrity :: bool
  details :: validation_details

text \<open>
  \<^verbatim>\<open>validateCertificate(certificate)\<close>, in the order of the source: the two comparisons
  (\<open>certificate_checks\<close>), the call \<^verbatim>\<open>this.verifyAuthorship(certificate.poemId)\<close>, again
  with one argument, and the object built from both (\<open>validation_report\<close>).
\<close>

definition certificate_checks :: "runtime \<Rightarrow> certificate \<Rightarrow> error + bool \<times> bool" where
  "certificate_checks rt c =
     (case generateContentHash rt (Some (certificateData rt c)) of
        Inl e \<Rightarrow> Inl e
      | Inr expectedHash \<Rightarrow>
          (let expectedSignature = generateSignature rt (certificateData rt c) None;
               hashValid = (certificateHash c = Some expectedHash);
               signatureValid = (digitalSignature c = Some expectedSignature)
           in Inr (hashValid, signatureValid)))"

definition validation_report :: "bool \<Rightarrow> bool \<Rightarrow> verification \<Rightarrow> validation" where
  "validation_report hashValid signatureValid currentVerification =
     \<lparr>val_isValid = (hashValid \<and> signatureValid \<and> isValid currentVerification),
      certificateIntegrity = (hashValid \<and> signatureValid),
      poemIntegrity = isValid currentVerification,
      details =
        \<lparr>hashMatch = hashValid,
         signatureMatch = signatureValid,
         poemExists = True,
         chainIntact = isValid currentVerification\<rparr>\<rparr>"

definition validateCertificate :: "runtime \<Rightarrow> ledger_db \<Rightarrow> certificate \<Rightarrow> error + validation" where
  "validateCertificate rt db c =
     (case certificate_checks rt c of
        Inl e \<Rightarrow> Inl e
      | Inr (hashValid, signatureValid) \<Rightarrow>
          (case verifyAuthorship rt db (cert_poemId c) None of
             Inl e \<Rightarrow> Inl e
           | Inr currentVerification \<Rightarrow>
               Inr (validation_report hashValid signatureValid currentVerification)))"

subsection \<open>The ledger step of the poem routes: \<^verbatim>\<open>routes/poemRoutes.js\<close>\<close>



subsection \<open>The flat log: \<^verbatim>\<open>services/FileBasedLedger.js\<close>\<close>

text \<open>
  The state of a \<^verbatim>\<open>FileBasedLedger\<close>: its flag and the file at \<^verbatim>\<open>ledgerPath\<close>.
  \<open>contents = None\<close> is a file the \<^verbatim>\<open>fs\<close> calls reject on.
\<close>

record file_ledger =
  isReady :: bool
  contents :: "string option"

text \<open>
  \<^verbatim>\<open>String.prototype.trim\<close> strips white space and line terminators from both ends. The
  file is read as UTF-8 and a \<open>string\<close> here is its bytes, so each of these characters is
  the sequence of one, two or three bytes that encodes it: U+0009 to U+000D and U+0020;
  U+00A0; U+1680, U+2000 to U+200A, U+2028, U+2029, U+202F, U+205F, U+3000 and U+FEFF.
\<close>

definition space1 :: "char \<Rightarrow> bool" where
  "space1 c = (c \<in> {CHR 0x09, CHR 0x0A, CHR 0x0B, CHR 0x0C, CHR 0x0D, CHR 0x20})"

definition space2 :: "char \<Rightarrow> char \<Rightarrow> bool" where
  "space2 c d = (c = CHR 0xC2 \<and> d = CHR 0xA0)"

definition space3 :: "char \<Rightarrow> char \<Rightarrow> char \<Rightarrow> bool" where
  "space3 c d e =
     ((c = CHR 0xE1 \<and> d = CHR 0x9A \<and> e = CHR 0x80) \<or>
      (c = CHR 0xE2 \<and> d = CHR 0x80 \<and>
         e \<in> {CHR 0x80, CHR 0x81, CHR 0x82, CHR 0x83, CHR 0x84, CHR 0x85, CHR 0x86, CHR 0x87,
              CHR 0x88, CHR 0x89, CHR 0x8A, CHR 0xA8, CHR 0xA9, CHR 0xAF}) \<or>
      (c = CHR 0xE2 \<and> d = CHR 0x81 \<and> e = CHR 0x9F) \<or>
      (c = CHR 0xE3 \<and> d = CHR 0x80 \<and> e = CHR 0x80) \<or>
      (c = CHR 0xEF \<and> d = CHR 0xBB \<and> e = CHR 0xBF))"

text \<open>
  Stripping at the front; \<open>two\<close> and \<open>three\<close> recognise the sequences of two and three
  bytes in the order in which the bytes are met.
\<close>

fun strip_spaces ::
  "(char \<Rightarrow> char \<Rightarrow> bool) \<Rightarrow> (char \<Rightarrow> char \<Rightarrow> char \<Rightarrow> bool) \<Rightarrow> string \<Rightarrow> string" where
  "strip_spaces two three (c # d # e # rest) =
     (if space1 c then strip_spaces two three (d # e # rest)
      else if two c d then strip_spaces two three (e # rest)
      else if three c d e then strip_spaces two three rest
      else c # d # e # rest)"
| "strip_spaces two three [c, d] =
     (if space1 c then strip_spaces two three [d]
      else if two c d then []
      else [c, d])"
| "strip_spaces two three [c] = (if space1 c then [] else [c])"
| "strip_spaces two three [] = []"

definition trimStart :: "string \<Rightarrow> string" where
  "trimStart s = strip_spaces space2 space3 s"

text \<open>Stripping at the end meets the bytes of a sequence last byte first.\<close>

definition trimEnd :: "string \<Rightarrow> string" where
  "trimEnd s = rev (strip_spaces (\<lambda>d c. space2 c d) (\<lambda>e d c. space3 c d e) (rev s))"

definition trim :: "string \<Rightarrow> string" where
  "trim s = trimEnd (trimStart s)"

text \<open>\<^verbatim>\<open>s.split(sep)\<close> for a separator of one character.\<close>

fun split_on :: "char \<Rightarrow> string \<Rightarrow> string list" where
  "split_on sep [] = [[]]"
| "split_on sep (c # cs) =
     (if c = sep then [] # split_on sep cs
      else (case split_on sep cs of
              [] \<Rightarrow> [[c]]
            | piece # pieces \<Rightarrow> (c # piece) # pieces))"

text \<open>\<^verbatim>\<open>lines.map(line => JSON.parse(line))\<close>: the first line that does not parse throws.\<close>

fun parse_lines :: "runtime \<Rightarrow> string list \<Rightarrow> json list option" where
  "parse_lines rt [] = Some []"
| "parse_lines rt (l # ls) =
     (case json_parse rt l of
        None \<Rightarrow> None
      | Some j \<Rightarrow> (case parse_lines rt ls of None \<Rightarrow> None | Some js \<Rightarrow> Some (j # js)))"

text \<open>
  \<^verbatim>\<open>entry.key\<close>: reading a property of \<^verbatim>\<open>null\<close> throws; a value that is not an object
  has none of the three properties the filter reads.
\<close>

definition get_prop :: "json \<Rightarrow> string \<Rightarrow> error + json option" where
  "get_prop j k =
     (case j of
        JNull \<Rightarrow> Inl TypeError
      | JObj kvs \<Rightarrow> Inr (map_of kvs k)
      | _ \<Rightarrow> Inr None)"

text \<open>\<^verbatim>\<open>entries.filter(entry => entry.key === wanted)\<close>, with \<open>wanted\<close> a string.\<close>

fun filter_prop :: "string \<Rightarrow> string \<Rightarrow> json list \<Rightarrow> error + json list" where
  "filter_prop k wanted [] = Inr []"
| "filter_prop k wanted (entry # rest) =
     (case get_prop entry k of
        Inl e \<Rightarrow> Inl e
      | Inr p \<Rightarrow>
          (case filter_prop k wanted rest of
             Inl e \<Rightarrow> Inl e
           | Inr kept \<Rightarrow> Inr (if p = Some (JStr wanted) then entry # kept else kept)))"

record entry_filter =
  f_poemId :: "string option"
  f_authorId :: "string option"
  f_eventType :: "string option"

text \<open>\<^verbatim>\<open>if (filter.key) entries = entries.filter(...)\<close>: the empty string is falsy.\<close>

definition filter_if :: "string \<Rightarrow> string option \<Rightarrow> json list \<Rightarrow> error + json list" where
  "filter_if k wanted es =
     (case wanted of
        None \<Rightarrow> Inr es
      | Some w \<Rightarrow> (if w = [] then Inr es else filter_prop k w es))"

text \<open>\<^verbatim>\<open>content.trim().split('\n').filter(line => line)\<close>\<close>

definition log_lines :: "string \<Rightarrow> string list" where
  "log_lines content = filter (\<lambda>line. line \<noteq> []) (split_on (CHR 0x0A) (trim content))"

text \<open>\<^verbatim>\<open>getEntries()\<close> without an argument: the default \<^verbatim>\<open>filter = {}\<close>.\<close>

definition no_filter :: entry_filter where
  "no_filter = \<lparr>f_poemId = None, f_authorId = None, f_eventType = None\<rparr>"

text \<open>
  \<^verbatim>\<open>getEntries(filter)\<close>. Everything after the readiness test is inside
  \<^verbatim>\<open>try { ... } catch (error) { console.error(...); return []; }\<close>.
\<close>

definition getEntries :: "runtime \<Rightarrow> file_ledger \<Rightarrow> entry_filter \<Rightarrow> json list" where
  "getEntries rt fl flt =
     (if \<not> isReady fl then []
      else
        (case contents fl of
           None \<Rightarrow> []
         | Some content \<Rightarrow>
             (let lines = log_lines content
              in case parse_lines rt lines of
                   None \<Rightarrow> []
                 | Some parsed \<Rightarrow>
                     (case filter_if ''poemId'' (f_poemId flt) parsed of
                        Inl e \<Rightarrow> []
                      | Inr es1 \<Rightarrow>
                          (case filter_if ''authorId'' (f_authorId flt) es1 of
                             Inl e \<Rightarrow> []
                           | Inr es2 \<Rightarrow>
                               (case filter_if ''eventType'' (f_eventType flt) es2 of
                                  Inl e \<Rightarrow> []
                                | Inr es3 \<Rightarrow> es3))))))"

text \<open>
  \<^verbatim>\<open>appendEntry(entry)\<close>; \<open>entry\<close> is the list of the object's properties, \<open>None\<close> the
  \<^verbatim>\<open>null\<close> it returns. \<^verbatim>\<open>{ ...entry, timestamp, entryHash }\<close> overwrites a property in
  place and adds a new one at the end, as \<open>AList.update\<close> does.
\<close>

definition appendEntry ::
  "runtime \<Rightarrow> file_ledger \<Rightarrow> (string \<times> json) list \<Rightarrow> nat \<Rightarrow> (string \<times> json) list option \<times> file_ledger" where
  "appendEntry rt fl entry now =
     (if \<not> isReady fl then (None, fl)
      else
        (let timestamp = toISOString rt now;
             entryHash = sha256_hex rt (json_stringify rt (JObj entry) @ timestamp);
             ledgerEntry =
               AList.update ''entryHash'' (JStr entryHash)
                 (AList.update ''timestamp'' (JStr timestamp) entry);
             line = json_stringify rt (JObj ledgerEntry) @ [CHR 0x0A]
         in case contents fl of
              None \<Rightarrow> (None, fl)
            | Some written \<Rightarrow> (Some ledgerEntry, fl\<lparr>contents := Some (written @ line)\<rparr>)))"

subsection \<open>A runtime for the examples\<close>

text \<open>
  The examples below run the model on concrete stores. They use this instance of the
  runtime: its digests spell out what was hashed (so they are injective), its clock
  prints the milliseconds of the first second of 1970, its \<open>stringify\<close> writes JSON
  with the two escapes of a quote and a backslash, its parser reads back one-level
  objects of strings with these two escapes and rejects every other text, and it prints a
  user document as its fields between braces.
\<close>

definition dq :: char where
  "dq = CHR 0x22"

definition quoted :: "string \<Rightarrow> string" where
  "quoted s =
     dq # concat (map (\<lambda>c. if c = dq \<or> c = CHR 0x5C then [CHR 0x5C, c] else [c]) s) @ [dq]"

function decimal :: "nat \<Rightarrow> string" where
  "decimal n =
     (if n < 10 then [''0123456789'' ! n]
      else decimal (n div 10) @ [''0123456789'' ! (n mod 10)])"
  by pat_completeness auto
termination
  by (relation "measure id") auto

declare decimal.simps [simp del]

fun commas :: "string list \<Rightarrow> string" where
  "commas [] = []"
| "commas [x] = x"
| "commas (x # y # zs) = x @ '','' @ commas (y # zs)"

fun render :: "json \<Rightarrow> string" where
  "render JNull = ''null''"
| "render (JBool b) = (if b then ''true'' else ''false'')"
| "render (JNum n) = (if n < 0 then ''-'' @ decimal (nat (- n)) else decimal (nat n))"
| "render (JStr s) = quoted s"
| "render (JArr xs) = ''['' @ commas (map render xs) @ '']''"
| "render (JObj kvs) =
     ''{'' @ commas (map (\<lambda>kv. quoted (fst kv) @ '':'' @ render (snd kv)) kvs) @ ''}''"

definition iso_millis :: "nat \<Rightarrow> string" where
  "iso_millis n =
     ''1970-01-01T00:00:00.'' @
     [''0123456789'' ! (n div 100 mod 10), ''0123456789'' ! (n div 10 mod 10),
      ''0123456789'' ! (n mod 10)] @ ''Z''"

fun read_string :: "string \<Rightarrow> (string \<times> string) option" where
  "read_string [] = None"
| "read_string (c # cs) =
     (if c = dq then Some ([], cs)
      else if c = CHR 0x5C then
        (case cs of
           [] \<Rightarrow> None
         | e # es \<Rightarrow>
             if e = dq \<or> e = CHR 0x5C then
               (case read_string es of None \<Rightarrow> None | Some (s, rest) \<Rightarrow> Some (e # s, rest))
             else None)
      else (case read_string cs of None \<Rightarrow> None | Some (s, rest) \<Rightarrow> Some (c # s, rest)))"

fun read_members :: "nat \<Rightarrow> string \<Rightarrow> (string \<times> json) list option" where
  "read_members 0 s = None"
| "read_members (Suc fuel) s =
     (case s of
        [] \<Rightarrow> None
      | c # r1 \<Rightarrow>
          if c \<noteq> dq then None
          else
            (case read_string r1 of
               None \<Rightarrow> None
             | Some (k, r2) \<Rightarrow>
                 (case r2 of
                    c1 # c2 # r3 \<Rightarrow>
                      if c1 \<noteq> CHR '':'' \<or> c2 \<noteq> dq then None
                      else
                        (case read_string r3 of
                           None \<Rightarrow> None
                         | Some (v, r4) \<Rightarrow>
                             if r4 = ''}'' then Some [(k, JStr v)]
                             else
                               (case r4 of
                                  c3 # r5 \<Rightarrow>
                                    if c3 \<noteq> CHR '','' then None
                                    else map_option (Cons (k, JStr v)) (read_members fuel r5)
                                | [] \<Rightarrow> None))
                  | _ \<Rightarrow> None)))"

definition parse_flat :: "string \<Rightarrow> json option" where
  "parse_flat s =
     (case s of
        [] \<Rightarrow> None
      | c # rest \<Rightarrow>
          if c \<noteq> CHR ''{'' then None
          else if rest = ''}'' then Some (JObj [])
          else map_option JObj (read_members (length rest) rest))"

definition print_user :: "user_doc \<Rightarrow> string" where
  "print_user d =
     ''{ _id: '' @ u_id d @ '', username: '' @ username d @ '', displayName: '' @ displayName d @
     '', avatar: '' @ avatar d @ '' }''"

definition plain_runtime :: runtime where
  "plain_runtime =
     \<lparr>sha256_hex = (\<lambda>s. ''sha256('' @ s @ '')''),
      hmac_sha256_hex = (\<lambda>k s. ''hmac('' @ k @ '','' @ s @ '')''),
      toISOString = iso_millis,
      json_stringify = render,
      json_parse = parse_flat,
      document_toString = print_user\<rparr>"

text \<open>Two poems of two authors, and the stores the examples start from.\<close>

definition empty_db :: ledger_db where
  "empty_db = \<lparr>docs = [], db_up = True\<rparr>"

definition poem_one :: poem_data where
  "poem_one = \<lparr>p_id = ''p1'', title = ''Dawn'', body = ''first light'', author = Author_id ''u1'', license = ''CC0 1.0''\<rparr>"

definition poem_one_revised :: poem_data where
  "poem_one_revised = poem_one\<lparr>body := ''first light, again''\<rparr>"

definition poem_two :: poem_data where
  "poem_two = \<lparr>p_id = ''p2'', title = ''Dusk'', body = ''last light'', author = Author_id ''u2'', license = ''CC BY 4.0''\<rparr>"

text \<open>\<open>poem_one\<close> created at instant 2, then updated at instant 4.\<close>

definition db_created :: ledger_db where
  "db_created = snd (createPoemEntry plain_runtime empty_db poem_one 1 2)"

definition db_updated :: ledger_db where
  "db_updated = snd (updatePoemEntry plain_runtime db_created poem_one_revised 3 4)"

definition entry_created :: ledger_entry where
  "entry_created = projr (fst (createPoemEntry plain_runtime empty_db poem_one 1 2))"

definition entry_updated :: ledger_entry where
  "entry_updated = projr (fst (updatePoemEntry plain_runtime db_created poem_one_revised 3 4))"

text \<open>
  The revised poem as the update route hands it to the service, its author populated,
  and the entry \<open>updatePoemEntry\<close> appends for it to \<open>db_created\<close>.
\<close>

definition poem_one_populated :: poem_data where
  "poem_one_populated =
     poem_one_revised\<lparr>author :=
       Author_doc \<lparr>u_id = ''u1'', username = ''ada'', displayName = ''Ada'', avatar = []\<rparr>\<rparr>"

definition entry_populated :: ledger_entry where
  "entry_populated = projr (fst (updatePoemEntry plain_runtime db_created poem_one_populated 3 4))"

definition db_populated :: ledger_db where
  "db_populated = snd (updatePoemEntry plain_runtime db_created poem_one_populated 3 4)"

text \<open>
  \<open>db_updated\<close> with the content hash of its first entry overwritten, and the content
  whose hash the latest entry of \<open>p1\<close> stores.
\<close>

definition db_tampered :: ledger_db where
  "db_tampered =
     db_updated\<lparr>docs := (docs db_updated)[0 := (docs db_updated ! 0)\<lparr>contentHash := ''sha256(forged)''\<rparr>]\<rparr>"

definition tip_content :: string where
  "tip_content = ''Dawn'' @ ''first light, again'' @ ''u1'' @ iso_millis 3"

text \<open>\<open>poem_two\<close> created after \<open>poem_one\<close>, then a second creation for \<open>p1\<close>.\<close>

definition db_two_poems :: ledger_db where
  "db_two_poems = snd (createPoemEntry plain_runtime db_created poem_two 3 4)"

definition db_interleaved :: ledger_db where
  "db_interleaved = snd (createPoemEntry plain_runtime db_two_poems poem_one_revised 5 6)"

text \<open>
  A certificate for \<open>p1\<close> with the fields the issuer would fill in from \<open>db_created\<close>
  (one entry), sealed by the issuer's hash-and-sign step.
\<close>

definition cert_fields :: certificate where
  "cert_fields =
     \<lparr>cert_poemId = ''p1'',
      certificateId = ''2f1c6a0e-0000-4000-8000-000000000001'',
      issuedAt = iso_millis 5,
      cert_originalAuthor = Some ''u1'',
      cert_creationDate = Some 2,
      lastVerified = iso_millis 5,
      chainLength = 1,
      certificateHash = Some [],
      digitalSignature = Some []\<rparr>"

definition cert_sealed :: certificate where
  "cert_sealed = projr (seal_certificate plain_runtime cert_fields)"

text \<open>
  A flat log written by two calls of \<open>appendEntry\<close>, and the same file cut twenty
  characters before its end, as a crash in the middle of the second write leaves it.
\<close>

definition log_event_one :: "(string \<times> json) list" where
  "log_event_one = [(''type'', JStr ''USER_REGISTERED''), (''userId'', JStr ''u1'')]"

definition log_event_two :: "(string \<times> json) list" where
  "log_event_two = [(''type'', JStr ''USER_LOGIN''), (''userId'', JStr ''u1'')]"

definition log_one :: file_ledger where
  "log_one = snd (appendEntry plain_runtime \<lparr>isReady = True, contents = Some []\<rparr> log_event_one 1)"

definition log_written :: file_ledger where
  "log_written = snd (appendEntry plain_runtime log_one log_event_two 2)"

definition log_truncated :: file_ledger where
  "log_truncated =
     log_written\<lparr>contents := map_option (\<lambda>c. take (length c - 20) c) (contents log_written)\<rparr>"

text \<open>A filter that selects the entries of \<open>p1\<close>, and an update of the content hash.\<close>

definition of_p1 :: "ledger_entry \<Rightarrow> bool" where
  "of_p1 e = (poemId e = ''p1'')"

definition set_forged :: "ledger_entry \<Rightarrow> ledger_entry" where
  "set_forged e = e\<lparr>contentHash := ''sha256(forged)''\<rparr>"


section \<open>Properties\<close>

subsection \<open>What a successful append stores\<close>

lemma sort_key_Nil_iff [simp]: "sort_key f xs = [] \<longleftrightarrow> xs = []"
  by (metis length_sort length_0_conv)

lemma save_new_Inr:
  "save db True doc now = (Inr e, db') \<Longrightarrow>
     db_up db \<and> e = doc\<lparr>createdAt := now\<rparr> \<and> db' = db\<lparr>docs := docs db @ [e]\<rparr> \<and>
     blockHash doc \<notin> blockHash ` set (docs db)"
  by (auto simp: save_def Let_def split: if_splits)


lemma createPoemEntry_Inr:
  assumes "createPoemEntry rt db pd ts now = (Inr e, db')"
  shows "db_up db" and "db' = db\<lparr>docs := docs db @ [e]\<rparr>"
    and "poemId e = p_id pd" and "authorId e = author_oid (author pd)" and "createdAt e = now"
    and "originalTimestamp (metadata e) = ts"
    and "contentHash e =
           sha256_hex rt (title pd @ body pd @ author_text rt (author pd) @ toISOString rt ts)"
    and "previousHash e = (if docs db = [] then None else Some (blockHash (last (sort_key createdAt (docs db)))))"
    and "blockHash e =
           generateBlockHash rt (contentHash e) (previousHash e) (toISOString rt ts)
             (author_text rt (author pd))"
    and "signature e = generateSignature rt (contentHash e @ blockHash e @ toISOString rt ts) None"
    and "blockHash e \<notin> blockHash ` set (docs db)"
    and "eventType e = POEM_CREATED"
  using assms
  by (auto simp: createPoemEntry_def generateContentHash_def findOne_latest_def find_sorted_def
      Let_def split: sum.splits if_splits dest!: save_new_Inr)

lemma updatePoemEntry_Inr:
  assumes "updatePoemEntry rt db pd ts now = (Inr e, db')"
  shows "db_up db" and "db' = db\<lparr>docs := docs db @ [e]\<rparr>"
    and "poemId e = p_id pd" and "authorId e = author_oid (author pd)" and "createdAt e = now"
    and "originalTimestamp (metadata e) = ts"
    and "contentHash e =
           sha256_hex rt (title pd @ body pd @ author_text rt (author pd) @ toISOString rt ts)"
    and "filter (\<lambda>x. poemId x = p_id pd) (docs db) \<noteq> []"
    and "previousHash e = Some (blockHash (last (sort_key createdAt (filter (\<lambda>x. poemId x = p_id pd) (docs db)))))"
    and "blockHash e =
           generateBlockHash rt (contentHash e) (previousHash e) (toISOString rt ts)
             (author_text rt (author pd))"
    and "signature e = generateSignature rt (contentHash e @ blockHash e @ toISOString rt ts) None"
    and "blockHash e \<notin> blockHash ` set (docs db)"
    and "eventType e = POEM_UPDATED"
  using assms
  by (auto simp: updatePoemEntry_def generateContentHash_def findOne_latest_def find_sorted_def
      Let_def split: sum.splits option.splits if_splits dest!: save_new_Inr)



lemma chain_loop_iff:
  "chain_loop es i \<longleftrightarrow>
     (\<forall>j. i \<le> j \<and> j < length es \<longrightarrow> previousHash (es ! j) = Some (blockHash (es ! (j - 1))))"
proof (induction es i rule: chain_loop.induct)
  case (1 es i)
  let ?Q = "\<lambda>j. previousHash (es ! j) = Some (blockHash (es ! (j - 1)))"
  show ?case
  proof (cases "i < length es")
    case False
    then have "chain_loop es i"
      by (subst chain_loop.simps) simp
    moreover from False have "\<not> (i \<le> j \<and> j < length es)" for j
      by arith
    ultimately show ?thesis
      by blast
  next
    case True
    show ?thesis
    proof (cases "?Q i")
      case False
      with True have "\<not> chain_loop es i"
        by (subst chain_loop.simps) simp
      moreover from True False have "\<not> (\<forall>j. i \<le> j \<and> j < length es \<longrightarrow> ?Q j)"
        by blast
      ultimately show ?thesis
        by blast
    next
      case link: True
      have "chain_loop es i = chain_loop es (i + 1)"
        using True link by (subst chain_loop.simps) simp
      also have "\<dots> \<longleftrightarrow> (\<forall>j. i + 1 \<le> j \<and> j < length es \<longrightarrow> ?Q j)"
        using "1.IH" True link by simp
      also have "\<dots> \<longleftrightarrow> (\<forall>j. i \<le> j \<and> j < length es \<longrightarrow> ?Q j)"
      proof (intro iffI allI impI)
        fix j
        assume later: "\<forall>j. i + 1 \<le> j \<and> j < length es \<longrightarrow> ?Q j" and j: "i \<le> j \<and> j < length es"
        show "?Q j"
        proof (cases "j = i")
          case True
          with link show ?thesis by simp
        next
          case False
          with j have "i + 1 \<le> j \<and> j < length es" by arith
          with later show ?thesis by blast
        qed
      next
        fix j
        assume all: "\<forall>j. i \<le> j \<and> j < length es \<longrightarrow> ?Q j" and j: "i + 1 \<le> j \<and> j < length es"
        from j have "i \<le> j \<and> j < length es" by arith
        with all show "?Q j" by blast
      qed
      finally show ?thesis .
    qed
  qed
qed

text \<open>
  C3. The claim: every appended entry stores a block hash that is the SHA-256 digest of
  previous hash, content hash, timestamp and \<open>authorId\<close>, with \<^verbatim>\<open>'0'\<close> for the previous
  hash of the first entry ever written, and a signature that is the HMAC-SHA-256, under
  \<^verbatim>\<open>'poets-codex-secret'\<close>, of content hash, block hash and timestamp, and both recompute
  from the stored fields. The code hashes the text the template literal makes of the
  author it is handed and stores the author's identifier. The signature recomputes from
  the stored fields for every entry; the block hash does when that text is the stored
  identifier, as for the poem the creation route hands over. The update route hands over
  a poem whose author is the user document: the digest then covers the printed document,
  and the stored fields do not reproduce the stored block hash. (A stored previous hash
  is a digest; \<^verbatim>\<open>||\<close> would replace an empty one by \<^verbatim>\<open>'0'\<close> as well, hence \<open>p \<noteq> []\<close>.)
\<close>

theorem appended_block_hash_covers_author_text:
  assumes "createPoemEntry rt db pd ts now = (Inr e, db') \<or>
           updatePoemEntry rt db pd ts now = (Inr e, db')"
  shows "e \<in> set (docs db') \<and>
         authorId e = author_oid (author pd) \<and>
         blockHash e =
           generateBlockHash rt (contentHash e) (previousHash e)
             (toISOString rt (originalTimestamp (metadata e))) (author_text rt (author pd)) \<and>
         signature e =
           generateSignature rt
             (contentHash e @ blockHash e @ toISOString rt (originalTimestamp (metadata e))) None \<and>
         (previousHash e = None \<longleftrightarrow> docs db = []) \<and>
         (previousHash e = None \<longrightarrow>
            blockHash e =
              sha256_hex rt (''0'' @ contentHash e @
                toISOString rt (originalTimestamp (metadata e)) @ author_text rt (author pd))) \<and>
         (\<forall>p. previousHash e = Some p \<and> p \<noteq> [] \<longrightarrow>
            blockHash e =
              sha256_hex rt (p @ contentHash e @
                toISOString rt (originalTimestamp (metadata e)) @ author_text rt (author pd))) \<and>
         signature e =
           hmac_sha256_hex rt ''poets-codex-secret''
             (contentHash e @ blockHash e @ toISOString rt (originalTimestamp (metadata e))) \<and>
         (author_text rt (author pd) = authorId e \<longrightarrow>
            blockHash e =
              generateBlockHash rt (contentHash e) (previousHash e)
                (toISOString rt (originalTimestamp (metadata e))) (authorId e))"
proof -
  let ?iso = "toISOString rt (originalTimestamp (metadata e))"
  let ?text = "author_text rt (author pd)"
  have stored: "e \<in> set (docs db')"
    and oid: "authorId e = author_oid (author pd)"
    and block: "blockHash e = generateBlockHash rt (contentHash e) (previousHash e) ?iso ?text"
    and sig: "signature e = generateSignature rt (contentHash e @ blockHash e @ ?iso) None"
    and first: "previousHash e = None \<longleftrightarrow> docs db = []"
  proof -
    from assms
    have "e \<in> set (docs db') \<and>
          authorId e = author_oid (author pd) \<and>
          blockHash e = generateBlockHash rt (contentHash e) (previousHash e) ?iso ?text \<and>
          signature e = generateSignature rt (contentHash e @ blockHash e @ ?iso) None \<and>
          (previousHash e = None \<longleftrightarrow> docs db = [])"
    proof
      assume c: "createPoemEntry rt db pd ts now = (Inr e, db')"
      from createPoemEntry_Inr(2)[OF c] have "e \<in> set (docs db')" by simp
      moreover from createPoemEntry_Inr(8)[OF c] have "previousHash e = None \<longleftrightarrow> docs db = []"
        by simp
      ultimately show ?thesis
        using createPoemEntry_Inr(4,6,9,10)[OF c] by simp
    next
      assume u: "updatePoemEntry rt db pd ts now = (Inr e, db')"
      from updatePoemEntry_Inr(2)[OF u] have "e \<in> set (docs db')" by simp
      moreover from updatePoemEntry_Inr(8)[OF u] have "docs db \<noteq> []" by auto
      with updatePoemEntry_Inr(9)[OF u] have "previousHash e = None \<longleftrightarrow> docs db = []"
        by simp
      ultimately show ?thesis
        using updatePoemEntry_Inr(4,6,10,11)[OF u] by simp
    qed
    then show "e \<in> set (docs db')"
      and "authorId e = author_oid (author pd)"
      and "blockHash e = generateBlockHash rt (contentHash e) (previousHash e) ?iso ?text"
      and "signature e = generateSignature rt (contentHash e @ blockHash e @ ?iso) None"
      and "previousHash e = None \<longleftrightarrow> docs db = []"
      by blast+
  qed
  from block have "previousHash e = None \<longrightarrow>
            blockHash e = sha256_hex rt (''0'' @ contentHash e @ ?iso @ ?text)"
    by (auto simp: generateBlockHash_def or_zero_def)
  moreover from block have "\<forall>p. previousHash e = Some p \<and> p \<noteq> [] \<longrightarrow>
            blockHash e = sha256_hex rt (p @ contentHash e @ ?iso @ ?text)"
    by (auto simp: generateBlockHash_def or_zero_def)
  moreover from sig have "signature e =
           hmac_sha256_hex rt ''poets-codex-secret'' (contentHash e @ blockHash e @ ?iso)"
    by (simp add: generateSignature_def)
  moreover from block have "?text = authorId e \<longrightarrow>
            blockHash e = generateBlockHash rt (contentHash e) (previousHash e) ?iso (authorId e)"
    by simp
  ultimately show ?thesis
    using stored oid block sig first by blast
qed

text \<open>
  The entry the creation route's poem gives recomputes; the entry the update route's
  poem gives stores the identifier \<open>u1\<close> and a block hash taken over the printed user
  document, which the stored fields do not give back.
\<close>

theorem appended_block_hash_covers_author_text_witness:
  "createPoemEntry plain_runtime empty_db poem_one 1 2 = (Inr entry_created, db_created) \<and>
   blockHash entry_created =
     generateBlockHash plain_runtime (contentHash entry_created) (previousHash entry_created)
       (toISOString plain_runtime (originalTimestamp (metadata entry_created)))
       (authorId entry_created) \<and>
   updatePoemEntry plain_runtime db_created poem_one_populated 3 4 = (Inr entry_populated, db_populated) \<and>
   entry_populated \<in> set (docs db_populated) \<and>
   authorId entry_populated = ''u1'' \<and>
   author_text plain_runtime (author poem_one_populated) =
     ''{ _id: u1, username: ada, displayName: Ada, avatar:  }'' \<and>
   blockHash entry_populated =
     generateBlockHash plain_runtime (contentHash entry_populated) (previousHash entry_populated)
       (toISOString plain_runtime (originalTimestamp (metadata entry_populated)))
       (author_text plain_runtime (author poem_one_populated)) \<and>
   signature entry_populated =
     generateSignature plain_runtime
       (contentHash entry_populated @ blockHash entry_populated @
        toISOString plain_runtime (originalTimestamp (metadata entry_populated))) None \<and>
   blockHash entry_populated \<noteq>
     generateBlockHash plain_runtime (contentHash entry_populated) (previousHash entry_populated)
       (toISOString plain_runtime (originalTimestamp (metadata entry_populated)))
       (authorId entry_populated)"
proof -
  have run: "createPoemEntry plain_runtime empty_db poem_one 1 2 = (Inr entry_created, db_created)"
    by code_simp
  have plain: "author_text plain_runtime (author poem_one) = authorId entry_created"
    by code_simp
  note created = appended_block_hash_covers_author_text[OF disjI1, OF run]
  from created plain have recomputes: "blockHash entry_created =
     generateBlockHash plain_runtime (contentHash entry_created) (previousHash entry_created)
       (toISOString plain_runtime (originalTimestamp (metadata entry_created)))
       (authorId entry_created)"
    by blast
  have rerun: "updatePoemEntry plain_runtime db_created poem_one_populated 3 4 =
      (Inr entry_populated, db_populated)"
    by code_simp
  note updated = appended_block_hash_covers_author_text[OF disjI2, OF rerun]
  from updated have stored: "entry_populated \<in> set (docs db_populated)"
    by blast
  have oid: "authorId entry_populated = ''u1''"
    by code_simp
  have printed: "author_text plain_runtime (author poem_one_populated) =
     ''{ _id: u1, username: ada, displayName: Ada, avatar:  }''"
    by code_simp
  from updated have block: "blockHash entry_populated =
     generateBlockHash plain_runtime (contentHash entry_populated) (previousHash entry_populated)
       (toISOString plain_runtime (originalTimestamp (metadata entry_populated)))
       (author_text plain_runtime (author poem_one_populated))"
    by blast
  from updated have sig: "signature entry_populated =
     generateSignature plain_runtime
       (contentHash entry_populated @ blockHash entry_populated @
        toISOString plain_runtime (originalTimestamp (metadata entry_populated))) None"
    by blast
  have differs: "blockHash entry_populated \<noteq>
     generateBlockHash plain_runtime (contentHash entry_populated) (previousHash entry_populated)
       (toISOString plain_runtime (originalTimestamp (metadata entry_populated)))
       (authorId entry_populated)"
    by code_simp
  show ?thesis
    by (intro conjI) (fact run recomputes rerun stored oid printed block sig differs)+
qed

subsection \<open>An update needs an earlier entry\<close>

text \<open>
  C9. \<open>updatePoemEntry\<close> for a poem that has no entry in the store throws and leaves
  the store as it was: \<^verbatim>\<open>No previous ledger entry found for poem update\<close> when the
  query ran, the error of the query when the connection is down.
\<close>

theorem update_requires_previous:
  assumes "p_id pd \<notin> poemId ` set (docs db)"
  shows "updatePoemEntry rt db pd ts now =
           (Inl (if db_up db then NoPreviousEntry else Unavailable), db)"
proof -
  from assms have "\<forall>x \<in> set (docs db). poemId x \<noteq> p_id pd"
    by force
  then have "filter (\<lambda>x. poemId x = p_id pd) (docs db) = []"
    by (simp add: filter_empty_conv)
  then show ?thesis
    by (simp add: updatePoemEntry_def generateContentHash_def findOne_latest_def find_sorted_def)
qed

theorem update_requires_previous_witness:
  "p_id poem_two \<notin> poemId ` set (docs db_created) \<and>
   updatePoemEntry plain_runtime db_created poem_two 3 4 = (Inl NoPreviousEntry, db_created)"
proof -
  have none: "p_id poem_two \<notin> poemId ` set (docs db_created)"
    by code_simp
  have "db_up db_created"
    by code_simp
  with update_requires_previous[OF none, of plain_runtime 3 4] none show ?thesis
    by simp
qed

subsection \<open>The order of a chain, and what the chain check reads\<close>

lemma insort_key_snoc:
  "f x \<le> f y \<Longrightarrow> insort_key f x (zs @ [y]) = insort_key f x zs @ [y]"
  by (induction zs) auto

lemma sort_key_snoc:
  "\<forall>x \<in> set xs. f x \<le> f y \<Longrightarrow> sort_key f (xs @ [y]) = sort_key f xs @ [y]"
  by (induction xs) (auto simp: insort_key_snoc)

lemma sorted_last_max:
  "sorted (map f ys) \<Longrightarrow> y \<in> set ys \<Longrightarrow> f y \<le> f (last ys)"
proof (induction ys)
  case Nil
  then show ?case by simp
next
  case (Cons a ys)
  show ?case
  proof (cases "ys = []")
    case True
    with Cons.prems show ?thesis by simp
  next
    case False
    then have "last ys \<in> set ys" by simp
    with Cons.prems have "f a \<le> f (last ys)" by simp
    with Cons False show ?thesis by auto
  qed
qed

lemma latest_is_max:
  assumes "x \<in> set xs"
  shows "f x \<le> f (last (sort_key f xs))"
proof -
  have "sorted (map f (sort_key f xs))" by simp
  moreover from assms have "x \<in> set (sort_key f xs)" by simp
  ultimately show ?thesis by (rule sorted_last_max)
qed

lemma latest_in_set: "xs \<noteq> [] \<Longrightarrow> last (sort_key f xs) \<in> set xs"
  by (metis last_in_set set_sort sort_key_Nil_iff)

lemma same_links_filter:
  "list_all2 same_links xs ys \<Longrightarrow>
   list_all2 same_links (filter (\<lambda>e. poemId e = pid) xs) (filter (\<lambda>e. poemId e = pid) ys)"
  by (induction rule: list_all2_induct) (auto simp: same_links_def)

lemma same_links_insort:
  "list_all2 same_links xs ys \<Longrightarrow> same_links x y \<Longrightarrow>
   list_all2 same_links (insort_key createdAt x xs) (insort_key createdAt y ys)"
proof (induction rule: list_all2_induct)
  case Nil
  then show ?case by simp
next
  case (Cons a xs b ys)
  from Cons.hyps(1) Cons.prems have "createdAt b = createdAt a" and "createdAt y = createdAt x"
    by (simp_all add: same_links_def)
  with Cons show ?case by simp
qed

lemma same_links_sort:
  "list_all2 same_links xs ys \<Longrightarrow>
   list_all2 same_links (sort_key createdAt xs) (sort_key createdAt ys)"
  by (induction rule: list_all2_induct) (auto intro: same_links_insort)

lemma same_links_chain_loop:
  assumes "list_all2 same_links xs ys"
  shows "chain_loop xs i = chain_loop ys i"
proof -
  from assms have len: "length xs = length ys"
    by (rule list_all2_lengthD)
  have nth: "previousHash (ys ! j) = previousHash (xs ! j) \<and> blockHash (ys ! j) = blockHash (xs ! j)"
    if "j < length xs" for j
    using list_all2_nthD[OF assms that] by (simp add: same_links_def)
  have "(previousHash (ys ! j) = Some (blockHash (ys ! (j - 1)))) =
        (previousHash (xs ! j) = Some (blockHash (xs ! (j - 1))))" if "j < length xs" for j
  proof -
    from that have "j - 1 < length xs" by arith
    with nth[OF that] nth[of "j - 1"] show ?thesis by simp
  qed
  then show ?thesis
    unfolding chain_loop_iff len[symmetric] by blast
qed

lemma same_links_update:
  "list_all2 same_links xs (xs[k := (xs ! k)\<lparr>contentHash := h\<rparr>])"
proof (cases "k < length xs")
  case True
  then show ?thesis
    by (simp add: list_all2_conv_all_nth nth_list_update same_links_def)
next
  case False
  then show ?thesis
    by (simp add: list_all2_conv_all_nth same_links_def)
qed

subsection \<open>Chain verification\<close>

text \<open>
  C1, as the code has it. \<open>verifyChainIntegrity\<close> checks linkage only: over the entries
  of the poem, oldest first, it answers whether every entry after the first has the block
  hash of the entry before it as its previous hash. It recomputes no block hash and no
  signature and it names no position: the answer is one boolean. So overwriting the
  content hash of any stored entry leaves its answer as it was.
\<close>

theorem chain_check_reads_links_only:
  "(getAuthorshipChain db pid = Inr chain \<longrightarrow>
      verifyChainIntegrity db pid =
        Inr (\<forall>i. 0 < i \<and> i < length chain \<longrightarrow>
               previousHash (chain ! i) = Some (blockHash (chain ! (i - 1))))) \<and>
   verifyChainIntegrity (db\<lparr>docs := (docs db)[k := (docs db ! k)\<lparr>contentHash := h\<rparr>]\<rparr>) pid =
     verifyChainIntegrity db pid"
proof
  show "getAuthorshipChain db pid = Inr chain \<longrightarrow>
      verifyChainIntegrity db pid =
        Inr (\<forall>i. 0 < i \<and> i < length chain \<longrightarrow>
               previousHash (chain ! i) = Some (blockHash (chain ! (i - 1))))"
  proof
    assume "getAuthorshipChain db pid = Inr chain"
    then have "find_sorted db (\<lambda>e. poemId e = pid) = Inr chain"
      by (simp add: getAuthorshipChain_def)
    moreover have "chain_loop chain 1 =
        (\<forall>i. 0 < i \<and> i < length chain \<longrightarrow>
               previousHash (chain ! i) = Some (blockHash (chain ! (i - 1))))"
      unfolding chain_loop_iff by (simp add: Suc_le_eq)
    ultimately show "verifyChainIntegrity db pid =
        Inr (\<forall>i. 0 < i \<and> i < length chain \<longrightarrow>
               previousHash (chain ! i) = Some (blockHash (chain ! (i - 1))))"
      by (simp add: verifyChainIntegrity_def)
  qed
next
  let ?db' = "db\<lparr>docs := (docs db)[k := (docs db ! k)\<lparr>contentHash := h\<rparr>]\<rparr>"
  let ?chain = "\<lambda>d. sort_key createdAt (filter (\<lambda>e. poemId e = pid) (docs d))"
  have "list_all2 same_links (docs db) (docs ?db')"
    by (simp add: same_links_update)
  then have "list_all2 same_links (?chain db) (?chain ?db')"
    by (intro same_links_sort same_links_filter)
  then have "chain_loop (?chain db) 1 = chain_loop (?chain ?db') 1"
    by (rule same_links_chain_loop)
  then show "verifyChainIntegrity ?db' pid = verifyChainIntegrity db pid"
    by (simp add: verifyChainIntegrity_def find_sorted_def)
qed

theorem chain_check_reads_links_only_witness:
  "getAuthorshipChain db_updated ''p1'' = Inr [entry_created, entry_updated] \<and>
   verifyChainIntegrity db_updated ''p1'' = Inr True \<and>
   verifyChainIntegrity db_tampered ''p1'' = Inr True"
proof -
  have chain: "getAuthorshipChain db_updated ''p1'' = Inr [entry_created, entry_updated]"
    by code_simp
  have linked: "previousHash entry_updated = Some (blockHash entry_created)"
    by code_simp
  note facts = chain_check_reads_links_only[of db_updated "''p1''" "[entry_created, entry_updated]" 0 "''sha256(forged)''"]
  from facts chain have "verifyChainIntegrity db_updated ''p1'' =
      Inr (\<forall>i. 0 < i \<and> i < length [entry_created, entry_updated] \<longrightarrow>
             previousHash ([entry_created, entry_updated] ! i) =
             Some (blockHash ([entry_created, entry_updated] ! (i - 1))))"
    by blast
  moreover have "\<forall>i. 0 < i \<and> i < length [entry_created, entry_updated] \<longrightarrow>
             previousHash ([entry_created, entry_updated] ! i) =
             Some (blockHash ([entry_created, entry_updated] ! (i - 1)))"
    using linked by (auto simp: less_Suc_eq)
  ultimately have ok: "verifyChainIntegrity db_updated ''p1'' = Inr True"
    by simp
  from facts have "verifyChainIntegrity db_tampered ''p1'' = verifyChainIntegrity db_updated ''p1''"
    unfolding db_tampered_def by blast
  with chain ok show ?thesis
    by simp
qed

text \<open>
  C1 as stated fails: after the content hash of the first of two entries is overwritten,
  the stored block hash no longer recomputes from the stored fields, yet the chain check
  still answers true and \<open>verifyAuthorship\<close> still accepts the current content.
\<close>

theorem tampered_content_passes_verification:
  "contentHash (docs db_tampered ! 0) \<noteq> contentHash (docs db_updated ! 0) \<and>
   blockHash (docs db_tampered ! 0) \<noteq>
     generateBlockHash plain_runtime (contentHash (docs db_tampered ! 0))
       (previousHash (docs db_tampered ! 0))
       (toISOString plain_runtime (originalTimestamp (metadata (docs db_tampered ! 0))))
       (authorId (docs db_tampered ! 0)) \<and>
   verifyChainIntegrity db_tampered ''p1'' = Inr True \<and>
   map_sum id isValid (verifyAuthorship plain_runtime db_tampered ''p1'' (Some tip_content)) = Inr True"
  by code_simp

subsection \<open>Authorship verification\<close>

text \<open>What \<open>verifyAuthorship\<close> returns when it is given a content and the store answers.\<close>

lemma verifyAuthorship_content:
  assumes "getAuthorshipChain db pid = Inr chain"
  shows "verifyAuthorship rt db pid (Some content) =
           Inr (if chain = [] then rejected ''No ledger entries found''
                else if \<not> chain_loop chain 1 then rejected ''Ledger chain integrity compromised''
                else \<lparr>isValid = (contentHash (last chain) = sha256_hex rt content),
                      reason = None,
                      originalAuthor = Some (authorId (chain ! 0)),
                      creationDate = Some (createdAt (chain ! 0)),
                      lastModified = Some (createdAt (last chain)),
                      totalModifications = Some (length chain - 1),
                      entries = Some (map summary chain)\<rparr>)"
proof -
  from assms have sorted: "find_sorted db (\<lambda>e. poemId e = pid) = Inr chain"
    by (simp add: getAuthorshipChain_def)
  then have integrity: "verifyChainIntegrity db pid = Inr (chain_loop chain 1)"
    by (simp add: verifyChainIntegrity_def)
  show ?thesis
    unfolding verifyAuthorship_def generateContentHash_def
    by (simp add: assms integrity last_conv_nth Let_def)
qed

text \<open>
  C10. When the store answers, \<open>verifyAuthorship\<close> returns a result, and the result is
  valid exactly when the poem has an entry, the chain check passes and the SHA-256 of
  the content given equals the content hash of the last entry of the chain. That entry is
  the poem's latest by \<open>createdAt\<close>. So a content with another hash is rejected, and so is
  a poem with no entry.
\<close>

theorem authorship_needs_matching_tip:
  assumes "getAuthorshipChain db pid = Inr chain"
  shows "(\<exists>v. verifyAuthorship rt db pid (Some content) = Inr v \<and>
              (isValid v \<longleftrightarrow>
                 chain \<noteq> [] \<and> verifyChainIntegrity db pid = Inr True \<and>
                 contentHash (last chain) = sha256_hex rt content)) \<and>
         (chain \<noteq> [] \<longrightarrow>
            last chain \<in> set (docs db) \<and> poemId (last chain) = pid \<and>
            (\<forall>x \<in> set (docs db). poemId x = pid \<longrightarrow> createdAt x \<le> createdAt (last chain)))"
proof
  let ?mine = "filter (\<lambda>e. poemId e = pid) (docs db)"
  from assms have up: "db_up db" and chain: "chain = sort_key createdAt ?mine"
    by (auto simp: getAuthorshipChain_def find_sorted_def split: if_splits)
  from up chain have integrity: "verifyChainIntegrity db pid = Inr (chain_loop chain 1)"
    by (simp add: verifyChainIntegrity_def find_sorted_def)
  let ?v = "if chain = [] then rejected ''No ledger entries found''
            else if \<not> chain_loop chain 1 then rejected ''Ledger chain integrity compromised''
            else \<lparr>isValid = (contentHash (last chain) = sha256_hex rt content),
                  reason = None,
                  originalAuthor = Some (authorId (chain ! 0)),
                  creationDate = Some (createdAt (chain ! 0)),
                  lastModified = Some (createdAt (last chain)),
                  totalModifications = Some (length chain - 1),
                  entries = Some (map summary chain)\<rparr>"
  have "verifyAuthorship rt db pid (Some content) = Inr ?v"
    using assms by (rule verifyAuthorship_content)
  moreover have "isValid ?v \<longleftrightarrow>
      chain \<noteq> [] \<and> verifyChainIntegrity db pid = Inr True \<and>
      contentHash (last chain) = sha256_hex rt content"
    by (simp add: integrity rejected_def)
  ultimately show "\<exists>v. verifyAuthorship rt db pid (Some content) = Inr v \<and>
              (isValid v \<longleftrightarrow>
                 chain \<noteq> [] \<and> verifyChainIntegrity db pid = Inr True \<and>
                 contentHash (last chain) = sha256_hex rt content)"
    by blast
  show "chain \<noteq> [] \<longrightarrow>
            last chain \<in> set (docs db) \<and> poemId (last chain) = pid \<and>
            (\<forall>x \<in> set (docs db). poemId x = pid \<longrightarrow> createdAt x \<le> createdAt (last chain))"
  proof
    assume "chain \<noteq> []"
    with chain have "?mine \<noteq> []" by simp
    then have "last chain \<in> set ?mine"
      unfolding chain by (rule latest_in_set)
    moreover have "createdAt x \<le> createdAt (last chain)" if "x \<in> set (docs db)" "poemId x = pid" for x
    proof -
      from that have "x \<in> set ?mine" by simp
      then show ?thesis unfolding chain by (rule latest_is_max)
    qed
    ultimately show "last chain \<in> set (docs db) \<and> poemId (last chain) = pid \<and>
            (\<forall>x \<in> set (docs db). poemId x = pid \<longrightarrow> createdAt x \<le> createdAt (last chain))"
      by simp
  qed
qed

theorem authorship_needs_matching_tip_witness:
  "getAuthorshipChain db_updated ''p1'' = Inr [entry_created, entry_updated] \<and>
   getAuthorshipChain db_updated ''p2'' = Inr [] \<and>
   (\<exists>v. verifyAuthorship plain_runtime db_updated ''p1'' (Some tip_content) = Inr v \<and> isValid v) \<and>
   (\<exists>v. verifyAuthorship plain_runtime db_updated ''p1'' (Some ''Dawnfirst light'') = Inr v \<and> \<not> isValid v) \<and>
   (\<exists>v. verifyAuthorship plain_runtime db_updated ''p2'' (Some tip_content) = Inr v \<and> \<not> isValid v)"
proof -
  have chain: "getAuthorshipChain db_updated ''p1'' = Inr [entry_created, entry_updated]"
    by code_simp
  have none: "getAuthorshipChain db_updated ''p2'' = Inr []"
    by code_simp
  have intact: "verifyChainIntegrity db_updated ''p1'' = Inr True"
    by code_simp
  have same: "contentHash (last [entry_created, entry_updated]) = sha256_hex plain_runtime tip_content"
    by code_simp
  have other: "contentHash (last [entry_created, entry_updated]) \<noteq> sha256_hex plain_runtime ''Dawnfirst light''"
    by code_simp
  from authorship_needs_matching_tip[OF chain, of plain_runtime tip_content] intact same
  have a: "\<exists>v. verifyAuthorship plain_runtime db_updated ''p1'' (Some tip_content) = Inr v \<and> isValid v"
    by blast
  from authorship_needs_matching_tip[OF chain, of plain_runtime "''Dawnfirst light''"] other
  have b: "\<exists>v. verifyAuthorship plain_runtime db_updated ''p1'' (Some ''Dawnfirst light'') = Inr v \<and> \<not> isValid v"
    by blast
  from authorship_needs_matching_tip[OF none, of plain_runtime tip_content]
  have c: "\<exists>v. verifyAuthorship plain_runtime db_updated ''p2'' (Some tip_content) = Inr v \<and> \<not> isValid v"
    by blast
  show ?thesis
    by (intro conjI) (fact chain none a b c)+
qed

subsection \<open>The scope of linking and the scope of verification\<close>

text \<open>
  \<open>createPoemEntry\<close> takes its previous hash from the entry created last in the whole
  collection, whatever poem it belongs to.
\<close>

lemma createPoemEntry_latest:
  assumes "createPoemEntry rt db pd ts now = (Inr e, db')" and "docs db \<noteq> []"
  shows "\<exists>p \<in> set (docs db). previousHash e = Some (blockHash p) \<and>
           (\<forall>x \<in> set (docs db). createdAt x \<le> createdAt p)"
proof -
  let ?p = "last (sort_key createdAt (docs db))"
  from assms have "previousHash e = Some (blockHash ?p)"
    by (simp add: createPoemEntry_Inr(8))
  moreover from assms(2) have "?p \<in> set (docs db)"
    by (rule latest_in_set)
  moreover have "\<forall>x \<in> set (docs db). createdAt x \<le> createdAt ?p"
    by (simp add: latest_is_max)
  ultimately show ?thesis
    by blast
qed

text \<open>
  C2. A creation links to the entry created last across all poems (when the store holds
  an entry, the previous hash recorded is the block hash of an entry whose \<open>createdAt\<close>
  no other entry exceeds), while \<open>verifyChainIntegrity\<close> reads the entries of one poem
  only (its answer is the same on the store cut down to them). So when a poem is created,
  then another poem, then the first poem again (each at a later instant, from the empty
  store), the third entry links to the second, which belongs to the other poem; the chain
  verified for the first poem is the first and the third entry, the third does not link
  to the first, and the check fails. (The unique index on \<open>blockHash\<close> makes the first
  two block hashes differ.)
\<close>

theorem append_links_globally_check_reads_one_poem:
  assumes first: "createPoemEntry rt empty_db a ts1 t1 = (Inr e1, db1)"
    and second: "createPoemEntry rt db1 b ts2 t2 = (Inr e2, db2)"
    and third: "createPoemEntry rt db2 a' ts3 t3 = (Inr e3, db3)"
    and poems: "p_id a' = p_id a" "p_id b \<noteq> p_id a"
    and times: "t1 < t2" "t2 < t3"
  shows "(createPoemEntry rt db pd ts now = (Inr e, db') \<and> docs db \<noteq> [] \<longrightarrow>
            (\<exists>p \<in> set (docs db). previousHash e = Some (blockHash p) \<and>
               (\<forall>x \<in> set (docs db). createdAt x \<le> createdAt p))) \<and>
         verifyChainIntegrity (db\<lparr>docs := filter (\<lambda>x. poemId x = pid) (docs db)\<rparr>) pid =
           verifyChainIntegrity db pid \<and>
         previousHash e3 = Some (blockHash e2) \<and>
         poemId e2 \<noteq> poemId e3 \<and>
         e2 \<in> set (docs db2) \<and>
         (\<forall>x \<in> set (docs db2). createdAt x \<le> createdAt e2) \<and>
         getAuthorshipChain db3 (p_id a) = Inr [e1, e3] \<and>
         previousHash e3 \<noteq> Some (blockHash e1) \<and>
         verifyChainIntegrity db3 (p_id a) = Inr False"
proof -
  note f1 = createPoemEntry_Inr[OF first]
  note f2 = createPoemEntry_Inr[OF second]
  note f3 = createPoemEntry_Inr[OF third]
  from f1(2) have d1: "docs db1 = [e1]" and up1: "db_up db1"
    by (simp_all add: empty_db_def)
  from f2(2) d1 up1 have d2: "docs db2 = [e1, e2]" and up2: "db_up db2"
    by simp_all
  from f3(2) d2 up2 have d3: "docs db3 = [e1, e2, e3]" and up3: "db_up db3"
    by simp_all
  have order: "createdAt e1 < createdAt e2" "createdAt e2 < createdAt e3"
    using f1(5) f2(5) f3(5) times by simp_all
  have ids: "poemId e1 = p_id a" "poemId e2 = p_id b" "poemId e3 = p_id a"
    using f1(3) f2(3) f3(3) poems by simp_all
  from order have "sort_key createdAt [e1, e2] = [e1, e2]"
    by simp
  with f3(8) d2 have link: "previousHash e3 = Some (blockHash e2)"
    by simp
  from f2(11) d1 have distinct: "blockHash e2 \<noteq> blockHash e1"
    by simp
  from order have "sort_key createdAt [e1, e3] = [e1, e3]"
    by simp
  with d3 ids poems up3 have chain: "getAuthorshipChain db3 (p_id a) = Inr [e1, e3]"
    by (simp add: getAuthorshipChain_def find_sorted_def)
  have "\<not> chain_loop [e1, e3] 1"
    using link distinct by (subst chain_loop.simps) simp
  with chain have broken: "verifyChainIntegrity db3 (p_id a) = Inr False"
    by (simp add: verifyChainIntegrity_def getAuthorshipChain_def)
  from order d2 have newest: "\<forall>x \<in> set (docs db2). createdAt x \<le> createdAt e2"
    by simp
  from ids poems have other: "poemId e2 \<noteq> poemId e3"
    by simp
  from d2 have stored: "e2 \<in> set (docs db2)"
    by simp
  from link distinct have unlinked: "previousHash e3 \<noteq> Some (blockHash e1)"
    by simp
  have global: "createPoemEntry rt db pd ts now = (Inr e, db') \<and> docs db \<noteq> [] \<longrightarrow>
            (\<exists>p \<in> set (docs db). previousHash e = Some (blockHash p) \<and>
               (\<forall>x \<in> set (docs db). createdAt x \<le> createdAt p))"
    using createPoemEntry_latest by blast
  have local: "verifyChainIntegrity (db\<lparr>docs := filter (\<lambda>x. poemId x = pid) (docs db)\<rparr>) pid =
           verifyChainIntegrity db pid"
    by (simp add: verifyChainIntegrity_def find_sorted_def)
  show ?thesis
    by (intro conjI) (fact global local link other stored newest chain unlinked broken)+
qed

theorem append_links_globally_check_reads_one_poem_witness:
  "createPoemEntry plain_runtime empty_db poem_one 1 2 = (Inr (docs db_interleaved ! 0), db_created) \<and>
   createPoemEntry plain_runtime db_created poem_two 3 4 = (Inr (docs db_interleaved ! 1), db_two_poems) \<and>
   createPoemEntry plain_runtime db_two_poems poem_one_revised 5 6 = (Inr (docs db_interleaved ! 2), db_interleaved) \<and>
   p_id poem_one_revised = p_id poem_one \<and> p_id poem_two \<noteq> p_id poem_one \<and>
   (2::nat) < 4 \<and> (4::nat) < 6 \<and>
   previousHash (docs db_interleaved ! 2) = Some (blockHash (docs db_interleaved ! 1)) \<and>
   previousHash (docs db_interleaved ! 2) \<noteq> Some (blockHash (docs db_interleaved ! 0)) \<and>
   getAuthorshipChain db_interleaved (p_id poem_one) = Inr [docs db_interleaved ! 0, docs db_interleaved ! 2] \<and>
   verifyChainIntegrity db_interleaved (p_id poem_one) = Inr False"
proof -
  have first: "createPoemEntry plain_runtime empty_db poem_one 1 2 = (Inr (docs db_interleaved ! 0), db_created)"
    by code_simp
  have second: "createPoemEntry plain_runtime db_created poem_two 3 4 = (Inr (docs db_interleaved ! 1), db_two_poems)"
    by code_simp
  have third: "createPoemEntry plain_runtime db_two_poems poem_one_revised 5 6 = (Inr (docs db_interleaved ! 2), db_interleaved)"
    by code_simp
  have same: "p_id poem_one_revised = p_id poem_one"
    by (simp add: poem_one_revised_def)
  have differ: "p_id poem_two \<noteq> p_id poem_one"
    by (simp add: poem_one_def poem_two_def)
  have t12: "(2::nat) < 4" and t23: "(4::nat) < 6"
    by simp_all
  note facts = append_links_globally_check_reads_one_poem[OF first second third same differ t12 t23,
      where db = db_two_poems and pd = poem_one_revised and ts = 5 and now = 6
        and e = "docs db_interleaved ! 2" and db' = db_interleaved and pid = "''p1''"]
  from facts have link: "previousHash (docs db_interleaved ! 2) = Some (blockHash (docs db_interleaved ! 1))"
    by (elim conjE)
  from facts have unlinked: "previousHash (docs db_interleaved ! 2) \<noteq> Some (blockHash (docs db_interleaved ! 0))"
    by (elim conjE)
  from facts have chain: "getAuthorshipChain db_interleaved (p_id poem_one) = Inr [docs db_interleaved ! 0, docs db_interleaved ! 2]"
    by (elim conjE)
  from facts have broken: "verifyChainIntegrity db_interleaved (p_id poem_one) = Inr False"
    by (elim conjE)
  show ?thesis
    by (intro conjI) (fact first second third same differ t12 t23 link unlinked chain broken)+
qed

subsection \<open>Certificates\<close>

text \<open>
  Called without a content, \<open>verifyAuthorship\<close> throws at its first statement, before it
  reads the store.
\<close>

lemma verifyAuthorship_without_content:
  "verifyAuthorship rt db pid None = Inl ERR_INVALID_ARG_TYPE"
  by (simp add: verifyAuthorship_def generateContentHash_def)

text \<open>
  C4. Issuing a certificate and validating it at once should give a fully valid result.
  In the code both \<open>generateAuthorshipCertificate\<close> and \<open>validateCertificate\<close> call
  \<open>verifyAuthorship\<close> with the poem alone, so both throw \<^verbatim>\<open>ERR_INVALID_ARG_TYPE\<close> for
  every store, poem and certificate: no certificate is ever issued or validated. The
  example is \<open>db_created\<close>, whose chain for \<open>p1\<close> is valid.
\<close>

theorem certificate_issuance_throws:
  "generateAuthorshipCertificate rt db pid uuid issued verified = Inl ERR_INVALID_ARG_TYPE \<and>
   validateCertificate rt db c = Inl ERR_INVALID_ARG_TYPE"
proof
  show "generateAuthorshipCertificate rt db pid uuid issued verified = Inl ERR_INVALID_ARG_TYPE"
    by (simp add: generateAuthorshipCertificate_def verifyAuthorship_without_content)
  have "\<exists>checks. certificate_checks rt c = Inr checks"
    by (simp add: certificate_checks_def generateContentHash_def Let_def)
  then show "validateCertificate rt db c = Inl ERR_INVALID_ARG_TYPE"
    by (auto simp: validateCertificate_def verifyAuthorship_without_content)
qed

theorem certificate_issuance_throws_witness:
  "map_sum id isValid (verifyAuthorship plain_runtime db_created ''p1'' (Some (''Dawnfirst lightu1'' @ iso_millis 1))) = Inr True \<and>
   generateAuthorshipCertificate plain_runtime db_created ''p1'' (certificateId cert_fields) 5 5 =
     Inl ERR_INVALID_ARG_TYPE \<and>
   validateCertificate plain_runtime db_created cert_sealed = Inl ERR_INVALID_ARG_TYPE"
proof -
  have valid: "map_sum id isValid
      (verifyAuthorship plain_runtime db_created ''p1'' (Some (''Dawnfirst lightu1'' @ iso_millis 1))) = Inr True"
    by code_simp
  note thrown = certificate_issuance_throws[of plain_runtime db_created "''p1''" "certificateId cert_fields" 5 5 cert_sealed]
  from thrown have issue: "generateAuthorshipCertificate plain_runtime db_created ''p1'' (certificateId cert_fields) 5 5 =
     Inl ERR_INVALID_ARG_TYPE"
    by (rule conjunct1)
  from thrown have validate: "validateCertificate plain_runtime db_created cert_sealed = Inl ERR_INVALID_ARG_TYPE"
    by (rule conjunct2)
  show ?thesis
    by (intro conjI) (fact valid issue validate)+
qed

text \<open>
  C5. The claim: a certificate issued before the chain grew by one entry validates as
  intact with the chain flagged as drifted, a result unlike that for a forged certificate.
  In the code \<open>validateCertificate\<close> calls \<open>verifyAuthorship\<close> with the poem alone, as
  the issuer does (C4), so it throws \<^verbatim>\<open>ERR_INVALID_ARG_TYPE\<close> for every certificate and
  every store: it returns no report, and a certificate whose hash or signature was
  replaced gets the outcome of the certificate it was made from.
\<close>

theorem validation_throws_for_stale_and_forged_alike:
  "validateCertificate rt db c = Inl ERR_INVALID_ARG_TYPE \<and>
   validateCertificate rt db (c\<lparr>certificateHash := h\<rparr>) = validateCertificate rt db c \<and>
   validateCertificate rt db (c\<lparr>digitalSignature := s\<rparr>) = validateCertificate rt db c"
proof -
  have thrown: "validateCertificate rt db x = Inl ERR_INVALID_ARG_TYPE" for x
  proof -
    obtain hashValid signatureValid where "certificate_checks rt x = Inr (hashValid, signatureValid)"
      by (simp add: certificate_checks_def generateContentHash_def Let_def)
    then show ?thesis
      by (simp add: validateCertificate_def verifyAuthorship_without_content)
  qed
  show ?thesis
    by (simp add: thrown)
qed

text \<open>
  \<open>cert_sealed\<close> recomputes and was made for the one-entry chain of \<open>db_created\<close>;
  against \<open>db_updated\<close>, where the chain has two entries, its validation throws, and so
  does that of a forged copy.
\<close>

theorem validation_throws_for_stale_and_forged_alike_witness:
  "certificate_checks plain_runtime cert_sealed = Inr (True, True) \<and>
   chainLength cert_sealed = length (docs db_created) \<and>
   docs db_updated = docs db_created @ [entry_updated] \<and>
   certificate_checks plain_runtime (cert_sealed\<lparr>certificateHash := Some ''sha256(forged)''\<rparr>) =
     Inr (False, True) \<and>
   validateCertificate plain_runtime db_updated cert_sealed = Inl ERR_INVALID_ARG_TYPE \<and>
   validateCertificate plain_runtime db_updated (cert_sealed\<lparr>certificateHash := Some ''sha256(forged)''\<rparr>) =
     Inl ERR_INVALID_ARG_TYPE"
proof -
  have intact: "certificate_checks plain_runtime cert_sealed = Inr (True, True)"
    by code_simp
  have made_for: "chainLength cert_sealed = length (docs db_created)"
    by code_simp
  have grown: "docs db_updated = docs db_created @ [entry_updated]"
    by code_simp
  have forged: "certificate_checks plain_runtime (cert_sealed\<lparr>certificateHash := Some ''sha256(forged)''\<rparr>) =
     Inr (False, True)"
    by code_simp
  note thrown = validation_throws_for_stale_and_forged_alike[where rt = plain_runtime
      and db = db_updated and c = cert_sealed and h = "Some ''sha256(forged)''" and s = None]
  from thrown have stale: "validateCertificate plain_runtime db_updated cert_sealed = Inl ERR_INVALID_ARG_TYPE"
    by (rule conjunct1)
  from thrown have alike: "validateCertificate plain_runtime db_updated (cert_sealed\<lparr>certificateHash := Some ''sha256(forged)''\<rparr>) =
     validateCertificate plain_runtime db_updated cert_sealed"
    by (elim conjE)
  from alike stale have same: "validateCertificate plain_runtime db_updated (cert_sealed\<lparr>certificateHash := Some ''sha256(forged)''\<rparr>) =
     Inl ERR_INVALID_ARG_TYPE"
    by (rule trans)
  show ?thesis
    by (intro conjI) (fact intact made_for grown forged stale same)+
qed

subsection \<open>Reading the flat log\<close>

lemma parse_lines_None_iff:
  "parse_lines rt ls = None \<longleftrightarrow> (\<exists>l \<in> set ls. json_parse rt l = None)"
  by (induction ls) (auto split: option.splits)

lemma parse_lines_Some:
  "parse_lines rt ls = Some js \<Longrightarrow> map (json_parse rt) ls = map Some js"
  by (induction ls arbitrary: js) (auto split: option.splits)

text \<open>
  C6, as the code has it. \<open>getEntries\<close> reads all or nothing: when one line of the file
  does not parse (the last one, cut by a crash, or any other) the \<^verbatim>\<open>catch\<close> returns the
  empty list, whatever the filter; when every line parses and no filter is given, it
  returns the parsed lines in file order.
\<close>

theorem getEntries_all_or_nothing:
  assumes "isReady fl" and "contents fl = Some content"
  shows "((\<exists>line \<in> set (log_lines content). json_parse rt line = None) \<longrightarrow>
            getEntries rt fl flt = []) \<and>
         (log_lines content = committed @ [partial] \<and> json_parse rt partial = None \<longrightarrow>
            getEntries rt fl flt = []) \<and>
         ((\<forall>line \<in> set (log_lines content). json_parse rt line \<noteq> None) \<longrightarrow>
            map (json_parse rt) (log_lines content) = map Some (getEntries rt fl no_filter))"
proof -
  have broken: "getEntries rt fl flt = []"
    if "\<exists>line \<in> set (log_lines content). json_parse rt line = None"
  proof -
    from that have "parse_lines rt (log_lines content) = None"
      by (simp add: parse_lines_None_iff)
    with assms show ?thesis
      by (simp add: getEntries_def)
  qed
  have whole: "map (json_parse rt) (log_lines content) = map Some (getEntries rt fl no_filter)"
    if "\<forall>line \<in> set (log_lines content). json_parse rt line \<noteq> None"
  proof -
    from that have "parse_lines rt (log_lines content) \<noteq> None"
      by (simp add: parse_lines_None_iff)
    then obtain js where js: "parse_lines rt (log_lines content) = Some js"
      by blast
    with assms have "getEntries rt fl no_filter = js"
      by (simp add: getEntries_def no_filter_def filter_if_def)
    with parse_lines_Some[OF js] show ?thesis
      by simp
  qed
  have last_cut: "getEntries rt fl flt = []"
    if "log_lines content = committed @ [partial] \<and> json_parse rt partial = None"
  proof (rule broken)
    from that have "partial \<in> set (log_lines content)" and "json_parse rt partial = None"
      by simp_all
    then show "\<exists>line \<in> set (log_lines content). json_parse rt line = None"
      by blast
  qed
  from broken last_cut whole show ?thesis
    by blast
qed

theorem getEntries_all_or_nothing_witness:
  "isReady log_truncated \<and>
   contents log_truncated = Some (the (contents log_truncated)) \<and>
   log_lines (the (contents log_truncated)) =
     butlast (log_lines (the (contents log_truncated))) @ [last (log_lines (the (contents log_truncated)))] \<and>
   json_parse plain_runtime (last (log_lines (the (contents log_truncated)))) = None \<and>
   getEntries plain_runtime log_truncated no_filter = []"
proof -
  have ready: "isReady log_truncated"
    by code_simp
  have stored: "contents log_truncated = Some (the (contents log_truncated))"
    by code_simp
  have lines: "log_lines (the (contents log_truncated)) =
     butlast (log_lines (the (contents log_truncated))) @ [last (log_lines (the (contents log_truncated)))]"
    by code_simp
  have cut: "json_parse plain_runtime (last (log_lines (the (contents log_truncated)))) = None"
    by code_simp
  note facts = getEntries_all_or_nothing[OF ready stored, of plain_runtime no_filter
      "butlast (log_lines (the (contents log_truncated)))" "last (log_lines (the (contents log_truncated)))"]
  from facts have "log_lines (the (contents log_truncated)) =
       butlast (log_lines (the (contents log_truncated))) @ [last (log_lines (the (contents log_truncated)))] \<and>
     json_parse plain_runtime (last (log_lines (the (contents log_truncated)))) = None \<longrightarrow>
     getEntries plain_runtime log_truncated no_filter = []"
    by (elim conjE)
  with lines cut have empty: "getEntries plain_runtime log_truncated no_filter = []"
    by (elim impE) (intro conjI)
  show ?thesis
    by (intro conjI) (fact ready stored lines cut empty)+
qed

text \<open>
  C6 as stated fails: after the first append the log reads back one entry; after a crash
  in the middle of the second append the file still begins with that line, and reading
  it returns no entry at all.
\<close>

theorem truncated_log_reads_empty:
  "length (getEntries plain_runtime log_one no_filter) = 1 \<and>
   length (log_lines (the (contents log_truncated))) = 2 \<and>
   hd (log_lines (the (contents log_truncated))) = hd (log_lines (the (contents log_one))) \<and>
   json_parse plain_runtime (hd (log_lines (the (contents log_truncated)))) =
     Some (hd (getEntries plain_runtime log_one no_filter)) \<and>
   getEntries plain_runtime log_truncated no_filter = []"
  by code_simp

subsection \<open>Immutability of the structured store\<close>

lemma update_first_split:
  assumes "\<exists>x \<in> set xs. flt x"
  shows "\<exists>before x after. xs = before @ x # after \<and> flt x \<and> (\<forall>y \<in> set before. \<not> flt y) \<and>
           update_first flt f xs = before @ f x # after"
  using assms
proof (induction xs)
  case Nil
  then show ?case by simp
next
  case (Cons a xs)
  show ?case
  proof (cases "flt a")
    case True
    then have "a # xs = [] @ a # xs \<and> flt a \<and> (\<forall>y \<in> set []. \<not> flt y) \<and>
        update_first flt f (a # xs) = [] @ f a # xs"
      by simp
    then show ?thesis by blast
  next
    case False
    with Cons.prems have "\<exists>x \<in> set xs. flt x" by auto
    with Cons.IH obtain before x after where
      split: "xs = before @ x # after" "flt x" "\<forall>y \<in> set before. \<not> flt y"
        "update_first flt f xs = before @ f x # after"
      by blast
    with False have "a # xs = (a # before) @ x # after \<and> flt x \<and>
        (\<forall>y \<in> set (a # before). \<not> flt y) \<and>
        update_first flt f (a # xs) = (a # before) @ f x # after"
      by simp
    then show ?thesis by blast
  qed
qed

lemma update_first_keeps:
  "(\<And>x. g (f x) = g x) \<Longrightarrow> map g (update_first flt f xs) = map g xs"
  by (induction xs) simp_all

lemma delete_first_shorter:
  "\<exists>x \<in> set xs. flt x \<Longrightarrow> length (delete_first flt xs) < length xs"
  by (induction xs) auto

text \<open>
  C7. The claim: no operation of the store changes or removes an entry once appended.
  The schema guards \<^verbatim>\<open>save\<close>, \<^verbatim>\<open>remove\<close> and \<^verbatim>\<open>deleteOne\<close> and nothing else. On a store
  that answers and holds an entry matching a filter, \<^verbatim>\<open>deleteMany\<close> removes that entry
  and every other match, \<^verbatim>\<open>findOneAndDelete\<close> removes the first match, and \<^verbatim>\<open>updateOne\<close>
  and \<^verbatim>\<open>findOneAndUpdate\<close> with an update that leaves the block hash alone succeed and
  rewrite the first match in place: no hook of the schema runs for them.
\<close>

theorem unhooked_operations_change_stored_entries:
  assumes "db_up db" and "e \<in> set (docs db)" and "flt e"
  shows "deleteMany db flt =
           (Inr (length (filter flt (docs db))), db\<lparr>docs := filter (\<lambda>x. \<not> flt x) (docs db)\<rparr>) \<and>
         e \<notin> set (docs (snd (deleteMany db flt))) \<and>
         length (docs (snd (findOneAndDelete db flt))) < length (docs db) \<and>
         ((\<forall>x. blockHash (upd x) = blockHash x) \<longrightarrow>
            updateOne db flt upd = (Inr 1, db\<lparr>docs := updated_docs db flt upd\<rparr>) \<and>
            snd (findOneAndUpdate db flt upd) = db\<lparr>docs := updated_docs db flt upd\<rparr> \<and>
            (\<exists>before x after.
               docs db = before @ x # after \<and> flt x \<and> (\<forall>y \<in> set before. \<not> flt y) \<and>
               updated_docs db flt upd = before @ (upd x)\<lparr>createdAt := createdAt x\<rparr> # after))"
proof (intro conjI impI)
  from assms(1) show "deleteMany db flt =
      (Inr (length (filter flt (docs db))), db\<lparr>docs := filter (\<lambda>x. \<not> flt x) (docs db)\<rparr>)"
    by (simp add: deleteMany_def)
  with assms(3) show "e \<notin> set (docs (snd (deleteMany db flt)))"
    by simp
  from assms(2,3) have some: "\<exists>x \<in> set (docs db). flt x"
    by blast
  then have "length (delete_first flt (docs db)) < length (docs db)"
    by (rule delete_first_shorter)
  with assms(1) show "length (docs (snd (findOneAndDelete db flt))) < length (docs db)"
    by (simp add: findOneAndDelete_def)
  assume keeps: "\<forall>x. blockHash (upd x) = blockHash x"
  then have "map blockHash (updated_docs db flt upd) = map blockHash (docs db)"
    unfolding updated_docs_def by (intro update_first_keeps) simp
  then have fits: "\<not> breaks_index (docs db) (updated_docs db flt upd)"
    by (simp add: breaks_index_def)
  from some have "filter flt (docs db) \<noteq> []"
    by (simp add: filter_empty_conv)
  then have "min 1 (length (filter flt (docs db))) = 1"
    by (cases "filter flt (docs db)") simp_all
  with assms(1) fits show "updateOne db flt upd = (Inr 1, db\<lparr>docs := updated_docs db flt upd\<rparr>)"
    by (simp add: updateOne_def)
  from assms(1) fits show "snd (findOneAndUpdate db flt upd) = db\<lparr>docs := updated_docs db flt upd\<rparr>"
    by (simp add: findOneAndUpdate_def)
  from some show "\<exists>before x after.
      docs db = before @ x # after \<and> flt x \<and> (\<forall>y \<in> set before. \<not> flt y) \<and>
      updated_docs db flt upd = before @ (upd x)\<lparr>createdAt := createdAt x\<rparr> # after"
    unfolding updated_docs_def by (rule update_first_split)
qed

text \<open>
  On \<open>db_created\<close>: a save of the stored entry and \<^verbatim>\<open>deleteOne\<close> are rejected, while
  \<^verbatim>\<open>deleteMany\<close> empties the store and \<^verbatim>\<open>updateOne\<close> overwrites the content hash of the
  stored entry.
\<close>

theorem unhooked_operations_change_stored_entries_witness:
  "db_up db_created \<and> entry_created \<in> set (docs db_created) \<and> of_p1 entry_created \<and>
   save db_created False entry_created 3 = (Inl IMMUTABLE_LEDGER, db_created) \<and>
   deleteOne db_created of_p1 = (Inl IMMUTABLE_LEDGER, db_created) \<and>
   entry_created \<notin> set (docs (snd (deleteMany db_created of_p1))) \<and>
   updateOne db_created of_p1 set_forged =
     (Inr 1, db_created\<lparr>docs := updated_docs db_created of_p1 set_forged\<rparr>) \<and>
   updated_docs db_created of_p1 set_forged = [set_forged entry_created] \<and>
   contentHash (set_forged entry_created) \<noteq> contentHash entry_created"
proof -
  have up: "db_up db_created"
    by code_simp
  have held: "entry_created \<in> set (docs db_created)"
    by code_simp
  have matches: "of_p1 entry_created"
    by code_simp
  have saved: "save db_created False entry_created 3 = (Inl IMMUTABLE_LEDGER, db_created)"
    by (simp add: save_def)
  have deleted_one: "deleteOne db_created of_p1 = (Inl IMMUTABLE_LEDGER, db_created)"
    by (simp add: deleteOne_def)
  have keeps: "\<forall>x. blockHash (set_forged x) = blockHash x"
    by (simp add: set_forged_def)
  note facts = unhooked_operations_change_stored_entries[where db = db_created
      and e = entry_created and flt = of_p1 and upd = set_forged, OF up held matches]
  from facts have gone: "entry_created \<notin> set (docs (snd (deleteMany db_created of_p1)))"
    by (elim conjE)
  from facts keeps have rewritten: "updateOne db_created of_p1 set_forged =
     (Inr 1, db_created\<lparr>docs := updated_docs db_created of_p1 set_forged\<rparr>)"
    by (elim conjE impE) assumption+
  have now_holds: "updated_docs db_created of_p1 set_forged = [set_forged entry_created]"
    by code_simp
  have changed: "contentHash (set_forged entry_created) \<noteq> contentHash entry_created"
    by code_simp
  show ?thesis
    by (intro conjI) (fact up held matches saved deleted_one gone rewritten now_holds changed)+
qed

subsection \<open>Failed appends\<close>




end
